theory Spec2Isabelle
  imports Main "HOL-Library.Word"
begin

unbundle bit_operations_syntax

section \<open>Go values\<close>

text \<open>
  Go's \<open>uint64\<close> and \<open>uint\<close> are \<open>64 word\<close>, \<open>uint8\<close>/\<open>byte\<close> is \<open>8 word\<close>.
  Go's \<open>int\<close> is modelled as \<open>int\<close>; where a computation of the source can leave the
  64-bit range the wrap-around is written out with \<open>wrap64\<close>. The conversion
  \<open>uint64(x)\<close> of an \<open>int\<close> is \<open>word_of_int x\<close> (two's complement), the conversion
  \<open>int(w)\<close> of a \<open>uint64\<close> is \<open>sint w\<close>.
\<close>

type_synonym uint64 = "64 word"
type_synonym uint8 = "8 word"

definition wrap64 :: "int \<Rightarrow> int" where
  "wrap64 x = (x + 2 ^ 63) mod 2 ^ 64 - 2 ^ 63"

definition MaxInt64 :: int where "MaxInt64 = 2 ^ 63 - 1"
definition MinInt64 :: int where "MinInt64 = - (2 ^ 63)"

section \<open>Errors\<close>

text \<open>
  Errors are values. \<open>TError code\<close> is one of the package's error constants
  (\<open>NewStd(code)\<close>, a \<open>*TError\<close>); \<open>GenErr code args\<close> is what
  \<open>GenWithStackByArgs\<close>, \<open>FastGenByArgs\<close> and \<open>GenWithStack\<close> build from such a
  constant (a \<open>fmt.Errorf\<close> value carrying the code and the arguments in its message);
  \<open>Wrap e msg\<close> is \<open>errors.Wrap(e, msg)\<close>; \<open>NormErr code\<close> is a \<open>*errors.Error\<close> of
  the pingcap errors library, the only kind of error that answers \<open>Code()\<close>;
  \<open>Other msg\<close> is any other error value (\<open>fmt.Errorf\<close>, \<open>strconv\<close> errors).
  \<open>errors.Trace\<close> only attaches a stack to a non-nil error and is not represented.
\<close>

datatype arg = S string | N int | L "string list" | W uint64 | B uint8

datatype error =
    TError nat
  | GenErr nat "arg list"
  | Wrap error string
  | NormErr nat
  | Other string

section \<open>Temporal encoding\<close>

subsection \<open>Bit fields of the core time\<close>

type_synonym CoreTime = uint64

definition yearBitFieldOffset :: nat where "yearBitFieldOffset = 50"
definition yearBitFieldWidth :: nat where "yearBitFieldWidth = 14"
definition monthBitFieldOffset :: nat where "monthBitFieldOffset = 46"
definition monthBitFieldWidth :: nat where "monthBitFieldWidth = 4"
definition dayBitFieldOffset :: nat where "dayBitFieldOffset = 41"
definition dayBitFieldWidth :: nat where "dayBitFieldWidth = 5"
definition hourBitFieldOffset :: nat where "hourBitFieldOffset = 36"
definition hourBitFieldWidth :: nat where "hourBitFieldWidth = 5"
definition minuteBitFieldOffset :: nat where "minuteBitFieldOffset = 30"
definition minuteBitFieldWidth :: nat where "minuteBitFieldWidth = 6"
definition secondBitFieldOffset :: nat where "secondBitFieldOffset = 24"
definition secondBitFieldWidth :: nat where "secondBitFieldWidth = 6"
definition microsecondBitFieldOffset :: nat where "microsecondBitFieldOffset = 4"
definition microsecondBitFieldWidth :: nat where "microsecondBitFieldWidth = 20"
definition fspTtBitFieldOffset :: nat where "fspTtBitFieldOffset = 0"
definition fspTtBitFieldWidth :: nat where "fspTtBitFieldWidth = 4"

text \<open>The source writes every mask as \<open>((1 << width) - 1) << offset\<close>.\<close>

definition yearBitFieldMask :: uint64 where
  "yearBitFieldMask = push_bit yearBitFieldOffset (push_bit yearBitFieldWidth 1 - 1)"
definition monthBitFieldMask :: uint64 where
  "monthBitFieldMask = push_bit monthBitFieldOffset (push_bit monthBitFieldWidth 1 - 1)"
definition dayBitFieldMask :: uint64 where
  "dayBitFieldMask = push_bit dayBitFieldOffset (push_bit dayBitFieldWidth 1 - 1)"
definition hourBitFieldMask :: uint64 where
  "hourBitFieldMask = push_bit hourBitFieldOffset (push_bit hourBitFieldWidth 1 - 1)"
definition minuteBitFieldMask :: uint64 where
  "minuteBitFieldMask = push_bit minuteBitFieldOffset (push_bit minuteBitFieldWidth 1 - 1)"
definition secondBitFieldMask :: uint64 where
  "secondBitFieldMask = push_bit secondBitFieldOffset (push_bit secondBitFieldWidth 1 - 1)"
definition microsecondBitFieldMask :: uint64 where
  "microsecondBitFieldMask =
     push_bit microsecondBitFieldOffset (push_bit microsecondBitFieldWidth 1 - 1)"
definition fspTtBitFieldMask :: uint64 where
  "fspTtBitFieldMask = push_bit fspTtBitFieldOffset (push_bit fspTtBitFieldWidth 1 - 1)"

definition fspTtForDate :: uint64 where "fspTtForDate = 14"
definition fspBitFieldMask :: uint64 where "fspBitFieldMask = 14"
definition coreTimeBitFieldMask :: uint64 where "coreTimeBitFieldMask = NOT fspTtBitFieldMask"

text \<open>
  Modelled from the spec: the constants \<open>ZeroCoreTime\<close>, \<open>UnspecifiedFsp\<close>, \<open>DefaultFsp\<close>,
  \<open>MinFsp\<close>, \<open>MaxFsp\<close> and the column type codes of package \<open>mysql\<close> are used by the
  source but declared outside it. The spec gives fsp the range 0 to 6, with an
  unspecified fsp mapping to the default 0; the type codes are those of the MySQL
  protocol.
\<close>

definition ZeroCoreTime :: CoreTime where "ZeroCoreTime = 0"
definition UnspecifiedFsp :: int where "UnspecifiedFsp = - 1"
definition DefaultFsp :: int where "DefaultFsp = 0"
definition MinFsp :: int where "MinFsp = 0"
definition MaxFsp :: int where "MaxFsp = 6"

definition TypeTimestamp :: uint8 where "TypeTimestamp = 7"
definition TypeDate :: uint8 where "TypeDate = 10"
definition TypeDatetime :: uint8 where "TypeDatetime = 12"

text \<open>
  Modelled from the spec: the field accessors of \<open>CoreTime\<close> are called by the source
  but declared outside it. Following the data model (year 14 bits, month 4, day 5,
  hour 5, minute 6, second 6, microsecond 20 above the 4 tag bits) each reads its
  field with the mask and offset that \<open>FromDate\<close> writes it with.
\<close>

definition Year :: "CoreTime \<Rightarrow> int" where
  "Year t = sint (drop_bit yearBitFieldOffset (t AND yearBitFieldMask))"
definition Month :: "CoreTime \<Rightarrow> int" where
  "Month t = sint (drop_bit monthBitFieldOffset (t AND monthBitFieldMask))"
definition Day :: "CoreTime \<Rightarrow> int" where
  "Day t = sint (drop_bit dayBitFieldOffset (t AND dayBitFieldMask))"
definition Hour :: "CoreTime \<Rightarrow> int" where
  "Hour t = sint (drop_bit hourBitFieldOffset (t AND hourBitFieldMask))"
definition Minute :: "CoreTime \<Rightarrow> int" where
  "Minute t = sint (drop_bit minuteBitFieldOffset (t AND minuteBitFieldMask))"
definition Second :: "CoreTime \<Rightarrow> int" where
  "Second t = sint (drop_bit secondBitFieldOffset (t AND secondBitFieldMask))"
definition Microsecond :: "CoreTime \<Rightarrow> int" where
  "Microsecond t = sint (drop_bit microsecondBitFieldOffset (t AND microsecondBitFieldMask))"

definition FromDate :: "int \<Rightarrow> int \<Rightarrow> int \<Rightarrow> int \<Rightarrow> int \<Rightarrow> int \<Rightarrow> int \<Rightarrow> CoreTime" where
  "FromDate year month day hour minute second microsecond =
     (let v = ZeroCoreTime;
          v = v OR (push_bit microsecondBitFieldOffset (word_of_int microsecond)
                      AND microsecondBitFieldMask);
          v = v OR (push_bit secondBitFieldOffset (word_of_int second) AND secondBitFieldMask);
          v = v OR (push_bit minuteBitFieldOffset (word_of_int minute) AND minuteBitFieldMask);
          v = v OR (push_bit hourBitFieldOffset (word_of_int hour) AND hourBitFieldMask);
          v = v OR (push_bit dayBitFieldOffset (word_of_int day) AND dayBitFieldMask);
          v = v OR (push_bit monthBitFieldOffset (word_of_int month) AND monthBitFieldMask);
          v = v OR (push_bit yearBitFieldOffset (word_of_int year) AND yearBitFieldMask)
      in v)"

definition FromDateChecked ::
  "int \<Rightarrow> int \<Rightarrow> int \<Rightarrow> int \<Rightarrow> int \<Rightarrow> int \<Rightarrow> int \<Rightarrow> CoreTime \<times> bool" where
  "FromDateChecked year month day hour minute second microsecond =
     (if (word_of_int year :: uint64) \<ge> push_bit yearBitFieldWidth 1 \<or>
         (word_of_int month :: uint64) \<ge> push_bit monthBitFieldWidth 1 \<or>
         (word_of_int day :: uint64) \<ge> push_bit dayBitFieldWidth 1 \<or>
         (word_of_int hour :: uint64) \<ge> push_bit hourBitFieldWidth 1 \<or>
         (word_of_int minute :: uint64) \<ge> push_bit minuteBitFieldWidth 1 \<or>
         (word_of_int second :: uint64) \<ge> push_bit secondBitFieldWidth 1 \<or>
         (word_of_int microsecond :: uint64) \<ge> push_bit microsecondBitFieldWidth 1
      then (ZeroCoreTime, False)
      else (FromDate year month day hour minute second microsecond, True))"

subsection \<open>Time: core time and tag in one word\<close>

datatype Time = Time (coreTime: CoreTime)

definition ZeroTime :: Time where "ZeroTime = Time 0"

definition NewTime :: "CoreTime \<Rightarrow> uint8 \<Rightarrow> int \<Rightarrow> Time" where
  "NewTime ct tp fsp =
     (let p = coreTime ZeroTime OR (ct AND coreTimeBitFieldMask)
      in if tp = TypeDate then Time (p OR fspTtForDate)
         else let fsp = (if fsp = UnspecifiedFsp then DefaultFsp else fsp);
                  p = p OR push_bit 1 (word_of_int fsp)
              in if tp = TypeTimestamp then Time (p OR 1) else Time p)"

definition getFspTt :: "Time \<Rightarrow> uint64" where
  "getFspTt t = coreTime t AND fspTtBitFieldMask"

definition setFspTt :: "Time \<Rightarrow> uint64 \<Rightarrow> Time" where
  "setFspTt t fspTt = Time ((coreTime t AND NOT fspTtBitFieldMask) OR fspTt)"

definition Type :: "Time \<Rightarrow> uint8" where
  "Type t = (if getFspTt t = fspTtForDate then TypeDate
             else if coreTime t AND 1 = 1 then TypeTimestamp
             else TypeDatetime)"

definition Time_Fsp :: "Time \<Rightarrow> int" where
  "Time_Fsp t = (let fspTt = getFspTt t
                 in if fspTt = fspTtForDate then 0 else sint (drop_bit 1 fspTt))"

definition SetType :: "Time \<Rightarrow> uint8 \<Rightarrow> Time" where
  "SetType t tp =
     (let fspTt = getFspTt t;
          fspTt = (if fspTt = fspTtForDate \<and> tp \<noteq> TypeDate then 0 else fspTt);
          fspTt = (if tp = TypeDate then fspTtForDate
                   else if tp = TypeTimestamp then fspTt OR 1
                   else if tp = TypeDatetime then fspTt AND NOT 1
                   else fspTt)
      in setFspTt t fspTt)"

definition SetFsp :: "Time \<Rightarrow> int \<Rightarrow> Time" where
  "SetFsp t fsp =
     (if getFspTt t = fspTtForDate then t
      else let fsp = (if fsp = UnspecifiedFsp then DefaultFsp else fsp)
           in Time ((coreTime t AND NOT fspBitFieldMask) OR push_bit 1 (word_of_int fsp)))"

definition CoreTime :: "Time \<Rightarrow> CoreTime" where
  "CoreTime t = coreTime t AND coreTimeBitFieldMask"

definition SetCoreTime :: "Time \<Rightarrow> CoreTime \<Rightarrow> Time" where
  "SetCoreTime t ct =
     Time ((coreTime t AND NOT coreTimeBitFieldMask) OR (ct AND coreTimeBitFieldMask))"

subsection \<open>Packed 64-bit encoding\<close>

text \<open>
  Modelled from the spec: \<open>compareTime\<close> is called by the source but declared outside
  it. It orders two core times chronologically: by date and time of day read as one
  decimal number, then by microsecond; the result is -1, 0 or 1.
\<close>

definition datetimeToUint64 :: "CoreTime \<Rightarrow> int" where
  "datetimeToUint64 t =
     (Year t * 10000 + Month t * 100 + Day t) * 1000000
       + (Hour t * 10000 + Minute t * 100 + Second t)"

definition compareTime :: "CoreTime \<Rightarrow> CoreTime \<Rightarrow> int" where
  "compareTime a b =
     (if datetimeToUint64 a < datetimeToUint64 b then - 1
      else if datetimeToUint64 a > datetimeToUint64 b then 1
      else if Microsecond a < Microsecond b then - 1
      else if Microsecond a > Microsecond b then 1
      else 0)"

definition IsZero :: "Time \<Rightarrow> bool" where
  "IsZero t = (compareTime (coreTime t) ZeroCoreTime = 0)"

text \<open>
  \<open>ToPackedUint\<close>: the fields are combined in Go's \<open>int\<close> and converted to \<open>uint64\<close>; the
  arithmetic stays far below the 64-bit range because every field is bounded by its
  bit width.
\<close>

definition ToPackedUint :: "Time \<Rightarrow> uint64 \<times> error option" where
  "ToPackedUint t =
     (if IsZero t then (0, None)
      else let tm = coreTime t;
               year = Year tm; month = Month tm; day = Day tm;
               hour = Hour tm; minute = Minute tm; sec = Second tm;
               ymd = (word_of_int (push_bit 5 (year * 13 + month) OR day) :: uint64);
               hms = (word_of_int ((push_bit 12 hour OR push_bit 6 minute) OR sec) :: uint64);
               micro = (word_of_int (Microsecond tm) :: uint64)
           in (push_bit 24 (push_bit 17 ymd OR hms) OR micro, None))"

definition FromPackedUint :: "Time \<Rightarrow> uint64 \<Rightarrow> Time \<times> error option" where
  "FromPackedUint t packed =
     (if packed = 0 then (SetCoreTime t ZeroCoreTime, None)
      else let ymdhms = drop_bit 24 packed;
               ymd = drop_bit 17 ymdhms;
               day = sint (ymd AND (push_bit 5 1 - 1));
               ym = drop_bit 5 ymd;
               month = sint (ym mod 13);
               year = sint (ym div 13);
               hms = ymdhms AND (push_bit 17 1 - 1);
               second = sint (hms AND (push_bit 6 1 - 1));
               minute = sint (drop_bit 6 hms AND (push_bit 6 1 - 1));
               hour = sint (drop_bit 12 hms);
               microsec = sint (packed mod push_bit 24 1)
           in (SetCoreTime t (FromDate year month day hour minute second microsec), None))"

text \<open>
  The integer that the packed layout of the spec assigns to a core time: microsecond
  in the low 24 bits, then second (6 bits), minute (6), hour (5), day (5) and
  \<open>year * 13 + month\<close> above them. It is used to state and prove the layout.
\<close>

definition packInt :: "CoreTime \<Rightarrow> int" where
  "packInt c = ((((Year c * 13 + Month c) * 32 + Day c) * 131072
                  + ((Hour c * 64 + Minute c) * 64 + Second c)) * 16777216 + Microsecond c)"

subsection \<open>Two-digit years\<close>

definition adjustYear :: "int \<Rightarrow> int" where
  "adjustYear y = (if y \<ge> 0 \<and> y \<le> 69 then 2000 + y
                   else if y \<ge> 70 \<and> y \<le> 99 then 1900 + y
                   else y)"

section \<open>Go's time package\<close>

text \<open>
  The standard library's \<open>time.Time\<close> is an instant with a location. The model keeps
  the instant as nanoseconds since the Unix epoch and the location as a fixed offset
  in seconds east of UTC (\<open>time.UTC\<close> is 0, \<open>time.FixedZone(name, off)\<close> is \<open>off\<close>);
  zones with transitions are outside the model. \<open>StmtContext.Location\<close> of the source
  always returns \<open>time.UTC\<close>.
\<close>

type_synonym Location = int

datatype GoTime = GoTime (unixNano: int) (location: Location)

definition UTC :: Location where "UTC = 0"

text \<open>\<open>gotime.Local\<close> is the zone of the process; the model fixes it to UTC.\<close>

definition Local :: Location where "Local = UTC"

definition Nanosecond :: int where "Nanosecond = 1"
definition Microsecond_ns :: int where "Microsecond_ns = 1000 * Nanosecond"
definition Millisecond :: int where "Millisecond = 1000 * Microsecond_ns"
definition Second_ns :: int where "Second_ns = 1000 * Millisecond"
definition Minute_ns :: int where "Minute_ns = 60 * Second_ns"
definition Hour_ns :: int where "Hour_ns = 60 * Minute_ns"

definition isLeap :: "int \<Rightarrow> bool" where
  "isLeap year = (year mod 4 = 0 \<and> (year mod 100 \<noteq> 0 \<or> year mod 400 = 0))"

definition daysBefore :: "int list" where
  "daysBefore = [0, 31, 59, 90, 120, 151, 181, 212, 243, 273, 304, 334, 365]"

text \<open>Days from January 1 of year 1 to January 1 of \<open>year\<close> (proleptic Gregorian).\<close>

definition daysSinceYear1 :: "int \<Rightarrow> int" where
  "daysSinceYear1 year =
     365 * (year - 1) + (year - 1) div 4 - (year - 1) div 100 + (year - 1) div 400"

text \<open>Seconds from January 1 of year 1 to the Unix epoch.\<close>

definition unixToInternal :: int where "unixToInternal = 62135596800"

text \<open>
  \<open>time.Date\<close>: month, then nanoseconds, seconds, minutes and hours are normalised
  with carries into the next larger unit; what is left is linear in the fields.
\<close>

definition Date :: "int \<Rightarrow> int \<Rightarrow> int \<Rightarrow> int \<Rightarrow> int \<Rightarrow> int \<Rightarrow> int \<Rightarrow> Location \<Rightarrow> GoTime" where
  "Date year month day hour minute sec nsec loc =
     (let m = month - 1;
          year = year + m div 12;
          m = m mod 12;
          d = daysSinceYear1 year + daysBefore ! nat m
                + (if isLeap year \<and> m + 1 \<ge> 3 then 1 else 0) + (day - 1);
          abs = d * 86400 + hour * 3600 + minute * 60 + sec;
          unix = abs - unixToInternal - loc
      in GoTime (unix * 1000000000 + nsec) loc)"

text \<open>Seconds since January 1 of year 1 on the wall clock of the time's location.\<close>

definition absSec :: "GoTime \<Rightarrow> int" where
  "absSec t = unixNano t div 1000000000 + location t + unixToInternal"

definition GoTime_Nanosecond :: "GoTime \<Rightarrow> int" where
  "GoTime_Nanosecond t = unixNano t mod 1000000000"

definition GoTime_Clock :: "GoTime \<Rightarrow> int \<times> int \<times> int" where
  "GoTime_Clock t =
     (let s = absSec t mod 86400 in (s div 3600, (s mod 3600) div 60, s mod 60))"

definition GoTime_Date :: "GoTime \<Rightarrow> int \<times> int \<times> int" where
  "GoTime_Date t =
     (let d = absSec t div 86400;
          n = d div 146097; y = 400 * n; d = d - 146097 * n;
          n = d div 36524; n = n - n div 4; y = y + 100 * n; d = d - 36524 * n;
          n = d div 1461; y = y + 4 * n; d = d - 1461 * n;
          n = d div 365; n = n - n div 4; y = y + n; d = d - 365 * n;
          year = y + 1;
          day = d
      in if isLeap year \<and> day = 31 + 29 - 1 then (year, 2, 29)
         else let day = (if isLeap year \<and> day > 31 + 29 - 1 then day - 1 else day);
                  month = day div 31;
                  end = daysBefore ! nat (month + 1)
              in if day \<ge> end then (year, month + 2, day - end + 1)
                 else (year, month + 1, day - daysBefore ! nat month + 1))"

definition GoTime_Add :: "GoTime \<Rightarrow> int \<Rightarrow> GoTime" where
  "GoTime_Add t d = GoTime (unixNano t + d) (location t)"

definition GoTime_In :: "GoTime \<Rightarrow> Location \<Rightarrow> GoTime" where
  "GoTime_In t loc = GoTime (unixNano t) loc"

text \<open>\<open>Time.Sub\<close> saturates at the ends of the 64-bit duration range.\<close>

definition GoTime_Sub :: "GoTime \<Rightarrow> GoTime \<Rightarrow> int" where
  "GoTime_Sub t u =
     (let d = unixNano t - unixNano u
      in if d < MinInt64 then MinInt64 else if d > MaxInt64 then MaxInt64 else d)"

text \<open>
  \<open>Time.Round\<close>: the remainder of the time since the zero time (January 1 of year 1,
  UTC) by \<open>d\<close>, rounding halfway values up; a non-positive \<open>d\<close> returns the time.
\<close>

definition GoTime_Round :: "GoTime \<Rightarrow> int \<Rightarrow> GoTime" where
  "GoTime_Round t d =
     (if d \<le> 0 then t
      else let r = (unixNano t + unixToInternal * 1000000000) mod d
           in if r + r < d then GoTime_Add t (- r) else GoTime_Add t (d - r))"

section \<open>Durations\<close>

record Duration =
  Duration :: int
  Fsp :: int

definition ZeroDuration :: Duration where
  "ZeroDuration = \<lparr>Duration = 0, Fsp = DefaultFsp\<rparr>"

definition MinTime :: int where
  "MinTime = - (838 * Hour_ns + 59 * Minute_ns + 59 * Second_ns)"
definition MaxTime :: int where
  "MaxTime = 838 * Hour_ns + 59 * Minute_ns + 59 * Second_ns"
definition TimeMaxHour :: int where "TimeMaxHour = 838"

text \<open>
  Modelled from the spec: \<open>CheckFsp\<close> is called by the source but declared outside it.
  Following the spec, an fsp is valid from 0 to 6 and an unspecified fsp maps to the
  default 0; any other value is reported as an error.
\<close>

definition CheckFsp :: "int \<Rightarrow> int \<times> error option" where
  "CheckFsp fsp =
     (if fsp = UnspecifiedFsp then (DefaultFsp, None)
      else if fsp < MinFsp then (DefaultFsp, Some (Other ''Invalid fsp''))
      else if fsp > MaxFsp then (MaxFsp, Some (Other ''Invalid fsp''))
      else (fsp, None))"

text \<open>
  \<open>Duration.RoundFrac\<close>. The location argument is a pointer: \<open>None\<close> is \<open>nil\<close>, for
  which the source logs a warning and takes \<open>gotime.Local\<close>.
  \<open>math.Pow10(9-fsp)\<close> is exact for the checked fsp.
\<close>

definition Duration_RoundFrac ::
  "Duration \<Rightarrow> int \<Rightarrow> Location option \<Rightarrow> Duration \<times> error option" where
  "Duration_RoundFrac d fsp loc =
     (let tz = (case loc of None \<Rightarrow> Local | Some l \<Rightarrow> l)
      in case CheckFsp fsp of
           (_, Some err) \<Rightarrow> (d, Some err)
         | (fsp, None) \<Rightarrow>
             if fsp = Fsp d then (d, None)
             else let n = Date 0 0 0 0 0 0 0 tz;
                      nd = GoTime_Sub
                             (GoTime_Round (GoTime_Add n (Duration d))
                                (10 ^ nat (9 - fsp) * Nanosecond)) n
                  in (\<lparr>Duration = nd, Fsp = fsp\<rparr>, None))"

section \<open>Statement context and truncation policy\<close>

text \<open>
  Modelled from the spec: the error numbers of package \<open>mysql\<close> are used by the source
  but declared outside it; each constant is the MySQL error number of its name.
  \<open>errors.go\<close> of the source confirms two of them in its comments
  (\<open>NewStd(1690) // ER_DATA_OUT_OF_RANGE\<close>, \<open>NewStd(1264) // ER_WARN_DATA_OUT_OF_RANGE\<close>).
\<close>

definition ErrWarnDataOutOfRange :: nat where "ErrWarnDataOutOfRange = 1264"
definition WarnDataTruncated :: nat where "WarnDataTruncated = 1265"
definition ErrTruncatedWrongValue :: nat where "ErrTruncatedWrongValue = 1292"
definition ErrTruncatedWrongValueForField :: nat where "ErrTruncatedWrongValueForField = 1366"
definition ErrDataTooLong :: nat where "ErrDataTooLong = 1406"
definition ErrWrongValueForType :: nat where "ErrWrongValueForType = 1411"
definition ErrDatetimeFunctionOverflow :: nat where "ErrDatetimeFunctionOverflow = 1441"
definition ErrDataOutOfRange :: nat where "ErrDataOutOfRange = 1690"

record ContextFlags =
  InInsertStmt :: bool
  InUpdateStmt :: bool
  InDeleteStmt :: bool
  InSelectStmt :: bool
  ignoreZeroInDate :: bool
  DividedByZeroAsWarning :: bool
  ignoreTruncateErr :: bool
  truncateAsWarning :: bool

record StmtContext =
  IgnoreTruncate :: bool
  TruncateAsWarning :: bool
  flags :: ContextFlags
  warnings :: "error list"

definition Flags :: "StmtContext \<Rightarrow> ContextFlags" where
  "Flags c = flags c"

definition IgnoreTruncateErr :: "ContextFlags \<Rightarrow> bool" where
  "IgnoreTruncateErr cf = ignoreTruncateErr cf"

definition ContextFlags_TruncateAsWarning :: "ContextFlags \<Rightarrow> bool" where
  "ContextFlags_TruncateAsWarning cf = truncateAsWarning cf"

definition IgnoreZeroInDate :: "ContextFlags \<Rightarrow> bool" where
  "IgnoreZeroInDate cf = ignoreZeroInDate cf"

definition IgnoreInvalidDateErr :: "ContextFlags \<Rightarrow> bool" where
  "IgnoreInvalidDateErr cf = False"

definition AppendWarning :: "StmtContext \<Rightarrow> error \<Rightarrow> StmtContext" where
  "AppendWarning c err = c\<lparr>warnings := warnings c @ [err]\<rparr>"

definition StmtContext_Location :: "StmtContext \<Rightarrow> Location" where
  "StmtContext_Location c = UTC"

text \<open>\<open>errors.Cause\<close> of the errors library: the innermost wrapped error.\<close>

fun Cause :: "error \<Rightarrow> error" where
  "Cause (Wrap e msg) = Cause e"
| "Cause e = e"

text \<open>
  \<open>HandleTruncate\<close>. The type assertion \<open>err.(*errors.Error)\<close> succeeds on \<open>NormErr\<close>
  only. The function returns the error (\<open>None\<close> is \<open>nil\<close>) and the context, whose
  warning list it may have extended.
\<close>

definition HandleTruncate :: "StmtContext \<Rightarrow> error option \<Rightarrow> error option \<times> StmtContext" where
  "HandleTruncate c err =
     (case err of
        None \<Rightarrow> (None, c)
      | Some e \<Rightarrow>
          let err = Cause e
          in if (case err of
                   NormErr code \<Rightarrow>
                     code \<noteq> ErrTruncatedWrongValue \<and>
                     code \<noteq> ErrDataTooLong \<and>
                     code \<noteq> ErrTruncatedWrongValueForField \<and>
                     code \<noteq> ErrWarnDataOutOfRange \<and>
                     code \<noteq> ErrDataOutOfRange \<and>
                     code \<noteq> 1367 \<and>
                     code \<noteq> ErrWrongValueForType \<and>
                     code \<noteq> ErrDatetimeFunctionOverflow \<and>
                     code \<noteq> WarnDataTruncated \<and>
                     code \<noteq> 1292
                 | _ \<Rightarrow> True)
             then (Some err, c)
             else if IgnoreTruncateErr (Flags c) then (None, c)
             else if ContextFlags_TruncateAsWarning (Flags c)
                  then (None, AppendWarning c err)
             else (Some err, c))"

section \<open>Decimal to unsigned integer\<close>

text \<open>
  A Go function either returns or panics (an index or slice expression out of range).
\<close>

datatype 'a outcome = Panic | Return 'a

text \<open>
  \<open>s[i:j]\<close> on a string with Go's bounds check \<open>0 \<le> i \<le> j \<le> len(s)\<close>.
\<close>

definition slice :: "string \<Rightarrow> int \<Rightarrow> int \<Rightarrow> string option" where
  "slice s i j =
     (if 0 \<le> i \<and> i \<le> j \<and> j \<le> int (length s)
      then Some (take (nat j - nat i) (drop (nat i) s)) else None)"

definition isDigit :: "char \<Rightarrow> bool" where
  "isDigit c = (of_char c \<ge> (48::nat) \<and> of_char c \<le> (57::nat))"

definition digitVal :: "char \<Rightarrow> nat" where
  "digitVal c = of_char c - 48"

fun decimalValue :: "nat \<Rightarrow> string \<Rightarrow> nat" where
  "decimalValue acc [] = acc"
| "decimalValue acc (c # cs) = decimalValue (acc * 10 + digitVal c) cs"

text \<open>
  \<open>strconv.ParseUint(s, 10, 64)\<close>: decimal digits only; a syntax error gives 0, a
  value beyond 64 bits gives the maximum with a range error.
\<close>

definition ParseUint :: "string \<Rightarrow> uint64 \<times> error option" where
  "ParseUint s =
     (if s = [] \<or> \<not> list_all isDigit s then (0, Some (Other ''invalid syntax''))
      else if decimalValue 0 s \<ge> 2 ^ 64 then (- 1, Some (Other ''value out of range''))
      else (word_of_nat (decimalValue 0 s), None))"

text \<open>
  \<open>strconv.ParseInt(s, 10, 64)\<close>: an optional sign and decimal digits; a value
  outside 64 bits gives the nearest bound with a range error.
\<close>

definition ParseInt :: "string \<Rightarrow> int \<times> error option" where
  "ParseInt s =
     (let neg = (s \<noteq> [] \<and> hd s = CHR ''-'');
          ds = (if s \<noteq> [] \<and> (hd s = CHR ''-'' \<or> hd s = CHR ''+'') then tl s else s)
      in if ds = [] \<or> \<not> list_all isDigit ds then (0, Some (Other ''invalid syntax''))
         else let v = int (decimalValue 0 ds)
              in if \<not> neg \<and> v > MaxInt64 then (MaxInt64, Some (Other ''value out of range''))
                 else if neg \<and> v > - MinInt64
                      then (MinInt64, Some (Other ''value out of range''))
                 else (if neg then - v else v, None))"

text \<open>\<open>strconv.FormatUint(n, 10)\<close>.\<close>

fun formatNat :: "nat \<Rightarrow> string" where
  "formatNat n =
     (if n < 10 then [''0123456789'' ! n]
      else formatNat (n div 10) @ [''0123456789'' ! (n mod 10)])"

declare formatNat.simps [simp del]

definition FormatUint :: "uint64 \<Rightarrow> string" where
  "FormatUint w = formatNat (unat w)"

text \<open>Go compares strings byte by byte.\<close>

fun stringLess :: "string \<Rightarrow> string \<Rightarrow> bool" where
  "stringLess [] [] = False"
| "stringLess [] (y # ys) = True"
| "stringLess (x # xs) [] = False"
| "stringLess (x # xs) (y # ys) =
     ((of_char x :: nat) < of_char y \<or> (x = y \<and> stringLess xs ys))"

text \<open>\<open>strings.Index(s, string(c))\<close>, -1 when absent.\<close>

fun indexByte :: "string \<Rightarrow> char \<Rightarrow> int" where
  "indexByte [] c = - 1"
| "indexByte (x # xs) c =
     (if x = c then 0 else let i = indexByte xs c in if i < 0 then - 1 else i + 1)"

text \<open>
  The loop of \<open>convertScientificNotation\<close>: the position of the exponent marker and
  of the last decimal point before it (the marker's own position when there is none),
  scanning from index \<open>i\<close> with the point found so far.
\<close>

fun scanExponent :: "string \<Rightarrow> int \<Rightarrow> int \<Rightarrow> int \<times> int" where
  "scanExponent [] i point = (- 1, point)"
| "scanExponent (c # cs) i point =
     (let point = (if c = CHR ''.'' then i else point)
      in if c = CHR ''e'' \<or> c = CHR ''E''
         then (i, if point = - 1 then i else point)
         else scanExponent cs (i + 1) point)"

text \<open>\<open>strings.Repeat\<close> panics on a negative count.\<close>

definition Repeat :: "string \<Rightarrow> int \<Rightarrow> string option" where
  "Repeat s count = (if count < 0 then None else Some (concat (replicate (nat count) s)))"

definition convertScientificNotation :: "string \<Rightarrow> (string \<times> error option) outcome" where
  "convertScientificNotation str =
     (case scanExponent str 0 (- 1) of (eIdx, point) \<Rightarrow>
        if eIdx = - 1 then Return (str, None)
        else (case ParseInt (drop (nat (eIdx + 1)) str) of
               (_, Some err) \<Rightarrow> Return ([], Some err)
             | (exp, None) \<Rightarrow>
                 let f = take (nat eIdx) str; len = int (length f)
                 in if exp = 0 then Return (f, None)
                    else if exp > 0 then
                      (let pe = wrap64 (point + exp)
                       in if pe = len - 1 then
                            (case (slice f 0 point, slice f (point + 1) len) of
                               (Some a, Some b) \<Rightarrow> Return (a @ b, None)
                             | _ \<Rightarrow> Panic)
                          else if pe < len - 1 then
                            (case (slice f 0 point,
                                   slice f (point + 1) (wrap64 (point + 1 + exp)),
                                   slice f (wrap64 (point + 1 + exp)) len) of
                               (Some a, Some b, Some c) \<Rightarrow> Return (a @ b @ ''.'' @ c, None)
                             | _ \<Rightarrow> Panic)
                          else
                            (case (slice f 0 point, slice f (point + 1) len,
                                   Repeat ''0'' (wrap64 (wrap64 (pe - len) + 1))) of
                               (Some a, Some b, Some z) \<Rightarrow> Return (a @ b @ z, None)
                             | _ \<Rightarrow> Panic))
                    else
                      (let exp = wrap64 (- exp)
                       in if exp < point then
                            (case (slice f 0 (point - exp), slice f (point - exp) point,
                                   slice f (point + 1) len) of
                               (Some a, Some b, Some c) \<Rightarrow> Return (a @ ''.'' @ b @ c, None)
                             | _ \<Rightarrow> Panic)
                          else
                            (case (Repeat ''0'' (wrap64 (exp - point)), slice f 0 point,
                                   slice f (point + 1) len) of
                               (Some z, Some a, Some b) \<Rightarrow> Return (''0.'' @ z @ a @ b, None)
                             | _ \<Rightarrow> Panic))))"

definition ErrOverflow :: error where "ErrOverflow = TError ErrDataOutOfRange"

text \<open>\<open>overflow(v, tp)\<close>: \<open>ErrOverflow.GenWithStack("constant %v overflows %s", v, TypeStr(tp))\<close>.\<close>

definition overflow :: "arg \<Rightarrow> uint8 \<Rightarrow> error" where
  "overflow v tp = GenErr ErrDataOutOfRange [S ''constant %v overflows %s'', v, B tp]"

definition convertDecimalStrToUint ::
  "string \<Rightarrow> uint64 \<Rightarrow> uint8 \<Rightarrow> (uint64 \<times> error option) outcome" where
  "convertDecimalStrToUint str upperBound tp =
     (case convertScientificNotation str of
        Panic \<Rightarrow> Panic
      | Return (_, Some err) \<Rightarrow> Return (0, Some err)
      | Return (str, None) \<Rightarrow>
          let p = indexByte str CHR ''.'';
              intStr = (if p = - 1 then str else take (nat p) str);
              fracStr = (if p = - 1 then [] else drop (nat (p + 1)) str);
              intStr = dropWhile (\<lambda>c. c = CHR ''0'') intStr;
              intStr = (if intStr = [] then ''0'' else intStr)
          in if hd intStr = CHR ''-'' then Return (0, Some (overflow (S str) tp))
             else let round = (if fracStr \<noteq> [] \<and> (of_char (hd fracStr) :: nat) \<ge> 53
                               then 1 else 0 :: uint64);
                      upperStr = FormatUint (upperBound - round)
                  in if length intStr > length upperStr \<or>
                        (length intStr = length upperStr \<and> stringLess upperStr intStr)
                     then Return (upperBound, Some (overflow (S str) tp))
                     else (case ParseUint intStr of
                             (val, Some err) \<Rightarrow> Return (val, Some (overflow (S str) tp))
                           | (val, None) \<Rightarrow> Return (val + round, None)))"

text \<open>
  Modelled from the spec: \<open>MyDecimal\<close> and its \<open>ToString\<close> are used by the source but
  declared outside it. Following the data model a decimal value is a sign, integer
  digits and fractional digits, and it is written sign first, then the integer
  digits (\<open>0\<close> when there are none), then a point and the fractional digits when
  there are any.
\<close>

record MyDecimal =
  negative :: bool
  intDigits :: string
  fracDigits :: string

definition ToString :: "MyDecimal \<Rightarrow> string" where
  "ToString d =
     (if negative d then ''-'' else []) @
     (if intDigits d = [] then ''0'' else intDigits d) @
     (if fracDigits d = [] then [] else ''.'' @ fracDigits d)"

definition ConvertDecimalToUint ::
  "MyDecimal \<Rightarrow> uint64 \<Rightarrow> uint8 \<Rightarrow> (uint64 \<times> error option) outcome" where
  "ConvertDecimalToUint d upperBound tp = convertDecimalStrToUint (ToString d) upperBound tp"

section \<open>Scanning utilities\<close>

text \<open>
  Modelled from the spec: \<open>isPunctuation\<close> is called by the source but declared
  outside it. The spec splits date strings on punctuation; the set is ASCII
  punctuation, the same four ranges that \<open>AnyPunct\<close> of the source tests.
\<close>

definition isPunctuation :: "char \<Rightarrow> bool" where
  "isPunctuation c =
     (let n = (of_char c :: nat)
      in (33 \<le> n \<and> n \<le> 47) \<or> (58 \<le> n \<and> n \<le> 64) \<or> (91 \<le> n \<and> n \<le> 96)
         \<or> (123 \<le> n \<and> n \<le> 126))"

text \<open>
  \<open>strings.TrimSpace\<close> on ASCII white space (tab, newline, vertical tab, form feed,
  carriage return, space); multi-byte Unicode spaces are not modelled.
\<close>

definition isSpace :: "char \<Rightarrow> bool" where
  "isSpace c = (let n = (of_char c :: nat) in (9 \<le> n \<and> n \<le> 13) \<or> n = 32)"

definition TrimSpace :: "string \<Rightarrow> string" where
  "TrimSpace s = rev (dropWhile isSpace (rev (dropWhile isSpace s)))"

text \<open>The parser utilities of the source; \<open>None\<close> stands for their error result.\<close>

definition Char :: "string \<Rightarrow> char \<Rightarrow> string option" where
  "Char s c = (if s = [] \<or> hd s \<noteq> c then None else Some (tl s))"

definition Space :: "string \<Rightarrow> nat \<Rightarrow> string option" where
  "Space s n =
     (let count = length (takeWhile (\<lambda>c. c = CHR '' '') s)
      in if count < n then None else Some (drop count s))"

definition Space0 :: "string \<Rightarrow> string" where
  "Space0 s = dropWhile (\<lambda>c. c = CHR '' '') s"

text \<open>\<open>strconv.Atoi\<close> is \<open>ParseInt\<close> in base 10 at the width of \<open>int\<close>.\<close>

definition Atoi :: "string \<Rightarrow> int \<times> error option" where
  "Atoi s = ParseInt s"

text \<open>
  \<open>Number\<close>: the leading run of digits, converted with \<open>Atoi\<close>; the error of \<open>Atoi\<close>
  (a run too long for \<open>int\<close>) is returned with the value and the rest.
\<close>

definition Number :: "string \<Rightarrow> int \<times> string \<times> error option" where
  "Number s =
     (if s = [] then (0, s, Some (Other ''no number found''))
      else let ds = takeWhile isDigit s
           in if ds = [] then (0, s, Some (Other ''no number found''))
              else (fst (Atoi ds), drop (length ds) s, snd (Atoi ds)))"

text \<open>\<open>Digit(s, n)\<close> takes exactly \<open>n\<close> digits.\<close>

definition Digit :: "string \<Rightarrow> nat \<Rightarrow> (string \<times> string) option" where
  "Digit s n =
     (if length s < n then None
      else if \<not> list_all isDigit (take n s) then None
      else Some (take n s, drop n s))"

definition AnyPunct :: "string \<Rightarrow> string option" where
  "AnyPunct s =
     (if s = [] then None
      else let c = (of_char (hd s) :: nat)
           in if (33 \<le> c \<and> c \<le> 47) \<or> (58 \<le> c \<and> c \<le> 64) \<or> (91 \<le> c \<and> c \<le> 96)
                 \<or> (123 \<le> c \<and> c \<le> 126)
              then Some (tl s) else None)"

section \<open>Splitting a datetime literal\<close>

text \<open>
  The loop of \<open>GetTimezone\<close> walks the literal from its end: the argument is the
  reversed literal, \<open>i\<close> the index of its head. It returns the index of \<open>Z\<close> (the
  walk stops there), of the last sign and of the last colon, each -1 when absent.
\<close>

fun tzScan :: "string \<Rightarrow> int \<Rightarrow> int \<Rightarrow> int \<Rightarrow> int \<times> int \<times> int" where
  "tzScan [] i sidx spidx = (- 1, sidx, spidx)"
| "tzScan (c # cs) i sidx spidx =
     (if c = CHR ''Z'' then (i, sidx, spidx)
      else tzScan cs (i - 1)
             (if sidx = - 1 \<and> (c = CHR ''-'' \<or> c = CHR ''+'') then i else sidx)
             (if spidx = - 1 \<and> c = CHR '':'' then i else spidx))"

definition validIdxCombinations :: "int \<Rightarrow> (int \<times> int) option" where
  "validIdxCombinations k =
     (if k = 100 then Some (0, 0)
      else if k = 30 then Some (2, 0)
      else if k = 50 then Some (4, 2)
      else if k = 63 then Some (5, 2)
      else None)"

definition validTz :: "string \<Rightarrow> bool" where
  "validTz v = (isDigit (v ! 0) \<and> isDigit (v ! 1))"

text \<open>\<open>lit[i:j]\<close> for indices that the caller has shown to be in range.\<close>

definition substr :: "string \<Rightarrow> int \<Rightarrow> int \<Rightarrow> string" where
  "substr s i j = take (nat j - nat i) (drop (nat i) s)"

definition GetTimezone :: "string \<Rightarrow> int \<times> string \<times> string \<times> string \<times> string" where
  "GetTimezone lit =
     (let l = int (length lit)
      in case tzScan (rev lit) (l - 1) (- 1) (- 1) of (zidx, sidx, spidx) \<Rightarrow>
           let k = (if l - zidx = 1 then 100 else 0);
               t = l - sidx;
               k = (if t = 3 \<or> t = 5 \<or> t = 6 then k + t * 10 else k);
               k = (if l - spidx = 3 then k + 3 else k)
           in (case validIdxCombinations k of
                None \<Rightarrow> (- 1, [], [], [], [])
              | Some (vh, vm) \<Rightarrow>
                  let hidx = l - vh; midx = l - vm;
                      tzSign = (if sidx \<noteq> - 1 then substr lit sidx (sidx + 1) else []);
                      idx = (if sidx \<noteq> - 1 then sidx else - 1);
                      idx = (if zidx \<noteq> - 1 then zidx else idx);
                      tzSep = (if l - spidx = 3 then substr lit spidx (spidx + 1) else []);
                      tzHour = (if vh \<noteq> 0 then substr lit hidx (hidx + 2) else []);
                      tzMinute = (if vm \<noteq> 0 then substr lit midx (midx + 2) else [])
                  in if vh \<noteq> 0 \<and> \<not> validTz tzHour then (- 1, [], [], [], [])
                     else if vm \<noteq> 0 \<and> \<not> validTz tzMinute then (- 1, [], [], [], [])
                     else (idx, tzSign, tzHour, tzSep, tzMinute)))"

text \<open>
  The loop of \<open>GetFracIndex\<close>, from index \<open>i\<close> downwards over the reversed prefix: the
  first punctuation other than a sign decides.
\<close>

fun fracScan :: "string \<Rightarrow> int \<Rightarrow> int" where
  "fracScan [] i = - 1"
| "fracScan (c # cs) i =
     (if c \<noteq> CHR ''+'' \<and> c \<noteq> CHR ''-'' \<and> isPunctuation c
      then (if c = CHR ''.'' then i else - 1)
      else fracScan cs (i - 1))"

definition GetFracIndex :: "string \<Rightarrow> int" where
  "GetFracIndex s =
     (case GetTimezone s of (tzIndex, _) \<Rightarrow>
        let end = (if tzIndex \<noteq> - 1 then tzIndex - 1 else int (length s) - 1)
        in fracScan (rev (take (nat (end + 1)) s)) end)"

definition GetFsp :: "string \<Rightarrow> int" where
  "GetFsp s =
     (let index = GetFracIndex s;
          fsp = (if index < 0 then 0 else int (length s) - index - 1)
      in if fsp > 6 then 6 else fsp)"

definition isValidSeparator :: "char \<Rightarrow> nat \<Rightarrow> bool" where
  "isValidSeparator c prevParts =
     (if isPunctuation c then True
      else if prevParts = 2 \<and>
              (c = CHR ''T'' \<or> c = CHR '' '' \<or> of_char c = (9::nat) \<or> of_char c = (10::nat) \<or>
               of_char c = (11::nat) \<or> of_char c = (12::nat) \<or> of_char c = (13::nat))
           then True
      else if prevParts > 4 \<and> \<not> isDigit c then True
      else False)"

text \<open>
  The loop of \<open>ParseDateFormat\<close>. The first argument is what is left of the string
  from index \<open>i\<close>, \<open>cur\<close> is \<open>format[start:i]\<close> and \<open>seps\<close> the parts found. The loop
  body runs while \<open>i < len(format) - 1\<close>, so the last character is never inspected:
  it is appended to the last part as it is. After a separator the inner loop skips
  the separators that follow, judged with the part count before the append.
\<close>

function parseDateFormatLoop :: "string \<Rightarrow> string \<Rightarrow> string list \<Rightarrow> string list option" where
  "parseDateFormatLoop [] cur seps = Some (seps @ [cur])"
| "parseDateFormatLoop [c] cur seps = Some (seps @ [cur @ [c]])"
| "parseDateFormatLoop (c # c' # cs) cur seps =
     (if isValidSeparator c (length seps)
      then parseDateFormatLoop
             (dropWhile (\<lambda>x. isValidSeparator x (length seps)) (c' # cs)) [] (seps @ [cur])
      else if \<not> isDigit c then None
      else parseDateFormatLoop (c' # cs) (cur @ [c]) seps)"
  by pat_completeness auto
termination
proof (relation "measure (\<lambda>(s, cur, seps). length s)")
  fix c c' :: char and cs cur :: string and seps :: "string list"
  have "length (dropWhile (\<lambda>x. isValidSeparator x (length seps)) (c' # cs))
          \<le> length (c' # cs)"
    by (rule length_dropWhile_le)
  then show "((dropWhile (\<lambda>x. isValidSeparator x (length seps)) (c' # cs), [], seps @ [cur]),
              (c # c' # cs, cur, seps)) \<in> measure (\<lambda>(s, cur, seps). length s)"
    by simp
qed simp_all

text \<open>\<open>ParseDateFormat\<close>; \<open>None\<close> is the \<open>nil\<close> result.\<close>

definition ParseDateFormat :: "string \<Rightarrow> string list option" where
  "ParseDateFormat format =
     (let format = TrimSpace format
      in if format = [] then None
         else if \<not> isDigit (hd format) then None
         else parseDateFormatLoop (tl format) [hd format] [])"

text \<open>
  \<open>splitDateTime\<close>: the parts, the fraction digits, whether a time zone was cut off,
  the four time zone pieces and whether characters after the fraction were dropped.
\<close>

definition splitDateTime ::
  "string \<Rightarrow> string list option \<times> string \<times> bool \<times> string \<times> string \<times> string \<times> string \<times> bool" where
  "splitDateTime format =
     (case GetTimezone format of (tzIndex, tzSign, tzHour, tzSep, tzMinute) \<Rightarrow>
        let hasTZ = (tzIndex > 0);
            format = (if tzIndex > 0
                      then rev (dropWhile isPunctuation (rev (take (nat tzIndex) format)))
                      else format);
            fracIndex = GetFracIndex format
        in if fracIndex > 0
           then let digits = takeWhile isDigit (drop (nat fracIndex + 1) format);
                    fracEnd = fracIndex + 1 + int (length digits);
                    truncated = (fracEnd \<noteq> int (length format));
                    format' = rev (dropWhile isPunctuation (rev (take (nat fracIndex) format)))
                in (ParseDateFormat format', digits, hasTZ, tzSign, tzHour, tzSep, tzMinute,
                    truncated)
           else (ParseDateFormat format, [], hasTZ, tzSign, tzHour, tzSep, tzMinute, False))"


section \<open>Parsing dates and times\<close>

definition DateTimeStr :: string where "DateTimeStr = ''datetime''"
definition TimeStr :: string where "TimeStr = ''time''"

definition ErrTruncatedWrongVal :: error where
  "ErrTruncatedWrongVal = TError ErrTruncatedWrongValue"
definition ErrWrongValue :: error where
  "ErrWrongValue = TError ErrTruncatedWrongValue"
definition ErrTimestampInDSTTransition :: error where
  "ErrTimestampInDSTTransition = TError 1105"

text \<open>
  \<open>GenWithStackByArgs\<close> and \<open>FastGenByArgs\<close> of \<open>*TError\<close> build a new error value from
  the constant's code and the arguments; \<open>GenWithStack\<close> takes a format first.
\<close>

fun GenWithStackByArgs :: "error \<Rightarrow> arg list \<Rightarrow> error" where
  "GenWithStackByArgs (TError code) args = GenErr code args"
| "GenWithStackByArgs e args = e"

definition FastGenByArgs :: "error \<Rightarrow> arg list \<Rightarrow> error" where
  "FastGenByArgs e args = GenWithStackByArgs e args"

definition GenWithStack :: "error \<Rightarrow> string \<Rightarrow> arg list \<Rightarrow> error" where
  "GenWithStack e format args = GenWithStackByArgs e (S format # args)"

text \<open>\<open>(*TError).Equal\<close>: true only for another \<open>*TError\<close> with the same code.\<close>

fun TError_Equal :: "error \<Rightarrow> error \<Rightarrow> bool" where
  "TError_Equal (TError code) (TError code') = (code = code')"
| "TError_Equal e other = False"

subsection \<open>Fixed-width scanning\<close>

text \<open>
  \<open>fmt.Sscanf\<close> with a format made of \<open>%Nd\<close> verbs. Each verb skips leading blanks
  (a newline is an error), fails with \<open>io.EOF\<close> when the input is exhausted, accepts
  one sign (counted in the width) and then digits or underscores up to the width; the
  token is converted with \<open>strconv.ParseInt\<close>. The result is the list of values scanned
  before the first failure, and the error.
\<close>

definition EOF :: error where "EOF = Other ''EOF''"

fun SkipSpace :: "string \<Rightarrow> error + string" where
  "SkipSpace [] = Inr []"
| "SkipSpace (c # cs) =
     (if of_char c = (10::nat) then Inl (Other ''unexpected newline'')
      else if isSpace c then SkipSpace cs
      else Inr (c # cs))"

definition scanInt :: "nat \<Rightarrow> string \<Rightarrow> error + (int \<times> string)" where
  "scanInt w s =
     (case SkipSpace s of
        Inl e \<Rightarrow> Inl e
      | Inr s \<Rightarrow>
          if s = [] then Inl EOF
          else let signed = ((hd s = CHR ''+'' \<or> hd s = CHR ''-'') \<and> 0 < w);
                   sign = (if signed then [hd s] else []);
                   s1 = (if signed then tl s else s);
                   w1 = (if signed then w - 1 else w)
               in if s1 = [] \<or> w1 = 0 then Inl EOF
                  else let tok = takeWhile (\<lambda>c. isDigit c \<or> c = CHR ''_'') (take w1 s1)
                       in if tok = [] then Inl (Other ''expected integer'')
                          else (case ParseInt (sign @ tok) of
                                  (v, Some e) \<Rightarrow> Inl e
                                | (v, None) \<Rightarrow> Inr (v, drop (length tok) s1)))"

fun Sscanf :: "string \<Rightarrow> nat list \<Rightarrow> int list \<times> error option" where
  "Sscanf s [] = ([], None)"
| "Sscanf s (w # ws) =
     (case scanInt w s of
        Inl e \<Rightarrow> ([], Some e)
      | Inr (v, rest) \<Rightarrow> (case Sscanf rest ws of (vs, err) \<Rightarrow> (v # vs, err)))"

text \<open>
  The scanned values overwrite the variables passed to \<open>Sscanf\<close> from the left; the
  variables after the last scanned value keep what they had.
\<close>

definition assign :: "int list \<Rightarrow> int list \<Rightarrow> int list" where
  "assign vals vars = vals @ drop (length vals) vars"

text \<open>
  \<open>scanTimeArgs\<close>: every part is converted with \<open>Atoi\<close>; the first failure is returned.
\<close>

fun scanTimeArgs :: "string list \<Rightarrow> int list \<times> error option" where
  "scanTimeArgs [] = ([], None)"
| "scanTimeArgs (s # ss) =
     (case Atoi s of
        (v, Some e) \<Rightarrow> ([v], Some e)
      | (v, None) \<Rightarrow> (case scanTimeArgs ss of (vs, err) \<Rightarrow> (v # vs, err)))"

subsection \<open>Fractional seconds\<close>

text \<open>
  Modelled from the spec: \<open>ParseFrac\<close> is called by the source but declared outside
  it. Following the spec it turns the digits after the point into microseconds
  rounded to the target fsp, half up, and reports an overflow when the rounding
  reaches the next second; no digits give 0.
\<close>

definition ParseFrac :: "string \<Rightarrow> int \<Rightarrow> int \<times> bool \<times> error option" where
  "ParseFrac s fsp =
     (if s = [] then (0, False, None)
      else case CheckFsp fsp of
             (_, Some err) \<Rightarrow> (0, False, Some err)
           | (fsp, None) \<Rightarrow>
               if fsp \<ge> int (length s)
               then (case ParseInt s of
                       (_, Some e) \<Rightarrow> (0, False, Some e)
                     | (tmp, None) \<Rightarrow> (tmp * 10 ^ nat (MaxFsp - int (length s)), False, None))
               else (case ParseInt (take (nat fsp + 1) s) of
                       (_, Some e) \<Rightarrow> (0, False, Some e)
                     | (tmp, None) \<Rightarrow>
                         let tmp = (tmp + 5) div 10
                         in if tmp \<ge> 10 ^ nat fsp then (0, True, None)
                            else (tmp * 10 ^ nat (MaxFsp - fsp), False, None)))"

subsection \<open>Core time and Go time\<close>

text \<open>
  Modelled from the spec: \<open>CoreTime.GoTime\<close> is called by the source but declared
  outside it. It builds the Go time of the fields in the location and reports an
  error when the fields do not name a real instant, that is when reading the Go
  time back gives other fields (month or day 0, a day past the end of the month).
\<close>

definition CoreTime_GoTime :: "CoreTime \<Rightarrow> Location \<Rightarrow> GoTime \<times> error option" where
  "CoreTime_GoTime t loc =
     (let tm = Date (Year t) (Month t) (Day t) (Hour t) (Minute t) (Second t)
                 (Microsecond t * 1000) loc
      in if GoTime_Date tm \<noteq> (Year t, Month t, Day t) \<or>
            GoTime_Clock tm \<noteq> (Hour t, Minute t, Second t) \<or>
            GoTime_Nanosecond tm div 1000 \<noteq> Microsecond t
         then (tm, Some (GenWithStackByArgs ErrWrongValue [S TimeStr, W t]))
         else (tm, None))"

text \<open>
  Modelled from the spec: \<open>AdjustedGoTime\<close> is called by the source but declared
  outside it. It is \<open>GoTime\<close> with a correction for values inside a daylight-saving
  gap; the fixed-offset locations of the model have no gap, so it agrees with
  \<open>GoTime\<close>.
\<close>

definition AdjustedGoTime :: "CoreTime \<Rightarrow> Location \<Rightarrow> GoTime \<times> error option" where
  "AdjustedGoTime t loc = CoreTime_GoTime t loc"

definition FromGoTime :: "GoTime \<Rightarrow> CoreTime" where
  "FromGoTime t =
     (let t = GoTime_Add t (500 * Nanosecond)
      in case GoTime_Date t of (year, month, day) \<Rightarrow>
           (case GoTime_Clock t of (hour, minute, second) \<Rightarrow>
              FromDate year month day hour minute second (GoTime_Nanosecond t div 1000)))"

definition ConvertTimeZone :: "Time \<Rightarrow> Location \<Rightarrow> Location \<Rightarrow> Time \<times> error option" where
  "ConvertTimeZone t from to =
     (if \<not> IsZero t
      then (case CoreTime_GoTime (coreTime t) from of
              (raw, Some err) \<Rightarrow> (t, Some err)
            | (raw, None) \<Rightarrow> (SetCoreTime t (FromGoTime (GoTime_In raw to)), None))
      else (t, None))"

subsection \<open>Validity checks\<close>

definition ZeroDatetime :: Time where
  "ZeroDatetime = NewTime ZeroCoreTime TypeDatetime DefaultFsp"

definition MaxDatetime :: CoreTime where
  "MaxDatetime = FromDate 9999 12 31 23 59 59 999999"
definition MinTimestamp :: Time where
  "MinTimestamp = NewTime (FromDate 1970 1 1 0 0 1 0) TypeTimestamp DefaultFsp"
definition MaxTimestamp :: Time where
  "MaxTimestamp = NewTime (FromDate 2038 1 19 3 14 7 999999) TypeTimestamp DefaultFsp"
definition BoundTimezone :: Location where "BoundTimezone = UTC"

definition Time_Compare :: "Time \<Rightarrow> Time \<Rightarrow> int" where
  "Time_Compare t o' = compareTime (coreTime t) (coreTime o')"

definition maxDaysInMonth :: "int list" where
  "maxDaysInMonth = [31, 29, 31, 30, 31, 30, 31, 31, 30, 31, 30, 31]"

text \<open>
  Modelled from the spec: \<open>isLeapYear\<close> is called by the source but declared outside
  it; it is the Gregorian rule on the year as a 16-bit value.
\<close>

definition isLeapYear :: "int \<Rightarrow> bool" where
  "isLeapYear year =
     (let y = year mod 65536 in y mod 4 = 0 \<and> (y mod 100 \<noteq> 0 \<or> y mod 400 = 0))"

definition checkDateRange :: "CoreTime \<Rightarrow> error option" where
  "checkDateRange t =
     (if Year t < 0 \<or> Month t < 0 \<or> Day t < 0
      then Some (GenWithStackByArgs ErrWrongValue [S TimeStr, W t])
      else if compareTime t MaxDatetime > 0
      then Some (GenWithStackByArgs ErrWrongValue [S TimeStr, W t])
      else None)"

definition checkMonthDay :: "int \<Rightarrow> int \<Rightarrow> int \<Rightarrow> bool \<Rightarrow> error option" where
  "checkMonthDay year month day allowInvalidDate =
     (if month < 0 \<or> month > 12
      then Some (GenWithStackByArgs ErrWrongValue [S DateTimeStr, N year, N month, N day])
      else let maxDay = (if allowInvalidDate then 31
                         else let maxDay = (if month > 0 then maxDaysInMonth ! nat (month - 1)
                                            else 31)
                              in if month = 2 \<and> \<not> isLeapYear year then 28 else maxDay)
           in if day < 0 \<or> day > maxDay
              then Some (GenWithStackByArgs ErrWrongValue [S DateTimeStr, N year, N month, N day])
              else None)"

definition checkDateType :: "CoreTime \<Rightarrow> bool \<Rightarrow> bool \<Rightarrow> error option" where
  "checkDateType t allowZeroInDate allowInvalidDate =
     (let year = Year t; month = Month t; day = Day t
      in if year = 0 \<and> month = 0 \<and> day = 0 then None
         else if \<not> allowZeroInDate \<and> (month = 0 \<or> day = 0)
         then Some (GenWithStackByArgs ErrWrongValue [S DateTimeStr, N year, N month, N day])
         else (case checkDateRange t of
                 Some err \<Rightarrow> Some err
               | None \<Rightarrow> checkMonthDay year month day allowInvalidDate))"

definition checkDatetimeType :: "CoreTime \<Rightarrow> bool \<Rightarrow> bool \<Rightarrow> error option" where
  "checkDatetimeType t allowZeroInDate allowInvalidDate =
     (case checkDateType t allowZeroInDate allowInvalidDate of
        Some err \<Rightarrow> Some err
      | None \<Rightarrow>
          let hour = Hour t; minute = Minute t; second = Second t
          in if hour < 0 \<or> hour \<ge> 24
             then Some (GenWithStackByArgs ErrWrongValue [S TimeStr, N hour])
             else if minute < 0 \<or> minute \<ge> 60
             then Some (GenWithStackByArgs ErrWrongValue [S TimeStr, N minute])
             else if second < 0 \<or> second \<ge> 60
             then Some (GenWithStackByArgs ErrWrongValue [S TimeStr, N second])
             else None)"

definition adjustTimestampErrForDST ::
  "Location \<Rightarrow> string \<Rightarrow> uint8 \<Rightarrow> Time \<Rightarrow> error option \<Rightarrow> Time \<times> error option" where
  "adjustTimestampErrForDST loc str tp t err =
     (if tp \<noteq> TypeTimestamp \<or> IsZero t then (t, err)
      else case ConvertTimeZone MinTimestamp UTC loc of (minTS, minErr) \<Rightarrow>
             (case ConvertTimeZone MaxTimestamp UTC loc of (maxTS, maxErr) \<Rightarrow>
                if minErr = None \<and> maxErr = None \<and>
                   Time_Compare t minTS > 0 \<and> Time_Compare t maxTS < 0
                then (case AdjustedGoTime (coreTime t) loc of
                        (tAdjusted, None) \<Rightarrow>
                          (SetCoreTime t (FromGoTime tAdjusted),
                           Some (GenWithStackByArgs ErrTimestampInDSTTransition [S str, N loc]))
                      | (tAdjusted, Some err2) \<Rightarrow> (t, err))
                else (t, err)))"

definition checkTimestampType :: "CoreTime \<Rightarrow> Location \<Rightarrow> error option" where
  "checkTimestampType t tz =
     (if compareTime t ZeroCoreTime = 0 then None
      else case (if tz \<noteq> BoundTimezone
                 then (case ConvertTimeZone (NewTime t TypeTimestamp DefaultFsp) tz BoundTimezone of
                         (convertTime, Some err) \<Rightarrow>
                           Inl (snd (adjustTimestampErrForDST tz [] TypeTimestamp (Time t)
                                        (Some err)))
                       | (convertTime, None) \<Rightarrow> Inr (coreTime convertTime))
                 else Inr t) of
             Inl err2 \<Rightarrow> err2
           | Inr checkTime \<Rightarrow>
               if compareTime checkTime (coreTime MaxTimestamp) > 0 \<or>
                  compareTime checkTime (coreTime MinTimestamp) < 0
               then Some (GenWithStackByArgs ErrWrongValue [S TimeStr, W t])
               else snd (CoreTime_GoTime t tz))"

definition Check :: "Time \<Rightarrow> StmtContext \<Rightarrow> error option" where
  "Check t ctx =
     (let allowZeroInDate = IgnoreZeroInDate (Flags ctx);
          allowInvalidDate = IgnoreInvalidDateErr (Flags ctx)
      in if Type t = TypeTimestamp then checkTimestampType (coreTime t) (StmtContext_Location ctx)
         else if Type t = TypeDatetime \<or> Type t = TypeDate
         then checkDatetimeType (coreTime t) allowZeroInDate allowInvalidDate
         else None)"


subsection \<open>The datetime parser\<close>

definition noAbsorb :: "string list \<Rightarrow> bool" where
  "noAbsorb seps = (length seps > 5 \<or> (length seps = 1 \<and> length (seps ! 0) > 4))"

text \<open>
  The single-part case of \<open>parseDatetime\<close> for a string literal: the fixed-width
  decomposition chosen by the length \<open>l\<close> of the part. The result is \<open>None\<close> for a
  length without a decomposition (the \<open>default\<close> branch), otherwise the six fields,
  whether a time of day with seconds was read (\<open>hhmmss\<close>), the error left over and the
  final \<open>truncatedOrIncorrect\<close>. The variables start at zero.
\<close>

definition widthsOf :: "nat \<Rightarrow> (nat list \<times> bool \<times> bool) option" where
  "widthsOf l =
     (if l = 14 then Some ([4, 2, 2, 2, 2, 2], False, True)
      else if l = 12 then Some ([2, 2, 2, 2, 2, 2], True, True)
      else if l = 11 then Some ([2, 2, 2, 2, 2, 1], True, True)
      else if l = 10 then Some ([2, 2, 2, 2, 2], True, False)
      else if l = 9 then Some ([2, 2, 2, 2, 1], True, False)
      else if l = 8 then Some ([4, 2, 2], False, False)
      else if l = 7 then Some ([2, 2, 2, 1], True, False)
      else if l = 6 \<or> l = 5 then Some ([2, 2, 2], True, False)
      else None)"

definition parseSinglePart ::
  "string \<Rightarrow> string \<Rightarrow> bool \<Rightarrow> (int list \<times> bool \<times> error option \<times> bool) option" where
  "parseSinglePart part fracStr truncatedOrIncorrect =
     (let l = length part
      in case widthsOf l of
           None \<Rightarrow> None
         | Some (widths, adjust, hhmmss) \<Rightarrow>
             (case Sscanf part widths of (vals, err) \<Rightarrow>
                let vars = assign vals [0, 0, 0, 0, 0, 0];
                    vars = (if adjust then vars[0 := adjustYear (vars ! 0)] else vars)
                in if l = 5 \<or> l = 6 \<or> l = 8
                   then (if length fracStr = 0 then Some (vars, hhmmss, err, err \<noteq> None)
                         else let ws = (if length fracStr \<le> 2 then [2]
                                        else if length fracStr \<le> 4 then [2, 2]
                                        else [2, 2, 2])
                              in (case Sscanf fracStr ws of (fvals, ferr) \<Rightarrow>
                                    Some (take 3 vars @ assign fvals (drop 3 vars), hhmmss, ferr,
                                          ferr \<noteq> None)))
                   else if l = 9 \<or> l = 10
                   then (if length fracStr = 0
                         then Some (vars[5 := 0], hhmmss, err, err \<noteq> None)
                         else (case Sscanf fracStr [2] of (fvals, ferr) \<Rightarrow>
                                 Some (take 5 vars @ assign fvals (drop 5 vars), hhmmss, ferr,
                                       ferr \<noteq> None)))
                   else Some (vars, hhmmss, err, truncatedOrIncorrect)))"

text \<open>
  The time zone block of \<open>parseDatetime\<close>: the parsed offset, checked against the
  range from -14:00 to +14:00, interprets the fields in a fixed zone, and the instant
  is read back in the location of the context. \<open>tzHour\<close> and \<open>tzMinute\<close> are empty
  or two digits; the digit arithmetic is on bytes.
\<close>

definition twoDigits :: "string \<Rightarrow> int" where
  "twoDigits v =
     (if length v = 0 then 0
      else uint ((of_char (v ! 0) - 48 :: uint8) * 10 + (of_char (v ! 1) - 48)))"

definition applyTimezone ::
  "CoreTime \<Rightarrow> string \<Rightarrow> string \<Rightarrow> string \<Rightarrow> string \<Rightarrow> Location \<Rightarrow> CoreTime \<times> error option" where
  "applyTimezone tmp str tzSign tzHour tzMinute ctxLoc =
     (let deltaHour = twoDigits tzHour; deltaMinute = twoDigits tzMinute
      in if deltaHour > 14 \<or> deltaMinute > 59 \<or> (deltaHour = 14 \<and> deltaMinute \<noteq> 0) \<or>
            (tzSign = ''-'' \<and> deltaHour = 0 \<and> deltaMinute = 0)
         then (tmp, Some (GenWithStackByArgs ErrWrongValue [S DateTimeStr, S str]))
         else let offset = deltaHour * 60 * 60 + deltaMinute * 60;
                  offset = (if tzSign = ''-'' then - offset else offset)
              in (case CoreTime_GoTime tmp offset of
                    (t1, Some err) \<Rightarrow> (tmp, Some err)
                  | (t1, None) \<Rightarrow> (FromGoTime (GoTime_In t1 ctxLoc), None)))"

text \<open>
  \<open>parseDatetime\<close> for a string literal: \<open>ParseTime\<close> passes \<open>isFloat = false\<close>, and
  the model is the function at that value (the branches for float-converted strings
  are not taken). It returns the Time, the error and the context, to which warnings
  may have been appended.
\<close>

definition parseDatetime ::
  "StmtContext \<Rightarrow> string \<Rightarrow> int \<Rightarrow> Time \<times> error option \<times> StmtContext" where
  "parseDatetime ctx str fsp =
     (case splitDateTime str of
        (seps0, fracStr, hasTZ, tzSign, tzHour, tzSep, tzMinute, truncatedOrIncorrect) \<Rightarrow>
        let seps = (case seps0 of None \<Rightarrow> [] | Some xs \<Rightarrow> xs);
            ctx = (if truncatedOrIncorrect
                   then AppendWarning ctx (FastGenByArgs ErrTruncatedWrongVal [S ''datetime'', S str])
                   else ctx);
            absorbFrac = (length fracStr \<noteq> 0 \<and> \<not> noAbsorb seps);
            seps = (if absorbFrac then seps @ [fracStr] else seps);
            fracStr = (if absorbFrac then [] else fracStr);
            absorbTZ = (hasTZ \<and> tzSign \<noteq> [] \<and> \<not> noAbsorb seps \<and>
                        \<not> (tzMinute \<noteq> [] \<and> tzSep = []));
            seps = (if absorbTZ
                    then seps @ (if length tzHour \<noteq> 0 then [tzHour] else [])
                              @ (if length tzMinute \<noteq> 0 then [tzMinute] else [])
                    else seps);
            hasTZ = (if absorbTZ then False else hasTZ)
        in if length seps = 0
           then (ZeroDatetime, Some (GenWithStackByArgs ErrWrongValue [S DateTimeStr, S str]), ctx)
           else if length seps = 2
           then (ZeroDatetime, Some (FastGenByArgs ErrWrongValue [S DateTimeStr, S str]), ctx)
           else
             (case (if length seps = 1
                    then (case parseSinglePart (seps ! 0) fracStr truncatedOrIncorrect of
                            None \<Rightarrow> Inl (GenWithStackByArgs ErrWrongValue [S TimeStr, S str])
                          | Some (vars, hhmmss, err, trunc) \<Rightarrow>
                              Inr (seps, vars, hhmmss, (if trunc then None else err),
                                   (if trunc
                                    then AppendWarning ctx
                                           (FastGenByArgs ErrTruncatedWrongVal [S ''datetime'', S str])
                                    else ctx)))
                    else if length seps \<le> 6
                    then (case scanTimeArgs seps of (vals, err) \<Rightarrow>
                            Inr (seps, assign vals [0, 0, 0, 0, 0, 0], length seps = 6, err, ctx))
                    else (case scanTimeArgs (take 6 seps) of (vals, err) \<Rightarrow>
                            Inr (take 6 seps, assign vals [0, 0, 0, 0, 0, 0], True, err,
                                 AppendWarning ctx
                                   (FastGenByArgs ErrTruncatedWrongVal [S ''datetime'', S str])))) of
                Inl e \<Rightarrow> (ZeroDatetime, Some e, ctx)
              | Inr (seps, vars, hhmmss, err, ctx) \<Rightarrow>
                  (case err of
                     Some e \<Rightarrow>
                       if e = EOF
                       then (ZeroDatetime,
                             Some (GenWithStackByArgs ErrWrongValue [S DateTimeStr, S str]), ctx)
                       else (ZeroDatetime, Some e, ctx)
                   | None \<Rightarrow>
                       let year = vars ! 0; month = vars ! 1; day = vars ! 2;
                           hour = vars ! 3; minute = vars ! 4; second = vars ! 5;
                           year = (if length (seps ! 0) \<le> 2 \<and>
                                      \<not> (year = 0 \<and> month = 0 \<and> day = 0 \<and> hour = 0 \<and>
                                         minute = 0 \<and> second = 0 \<and> fracStr = [])
                                   then adjustYear year else year)
                       in (case (if hhmmss then ParseFrac fracStr fsp else (0, False, None)) of
                             (microsecond, carry, Some e) \<Rightarrow> (ZeroDatetime, Some e, ctx)
                           | (microsecond, carry, None) \<Rightarrow>
                               (case FromDateChecked year month day hour minute second
                                       microsecond of
                                  (tmp, False) \<Rightarrow>
                                    (ZeroDatetime,
                                     Some (GenWithStackByArgs ErrWrongValue [S DateTimeStr, S str]),
                                     ctx)
                                | (tmp, True) \<Rightarrow>
                                    (case (if carry
                                           then (case CoreTime_GoTime tmp (StmtContext_Location ctx) of
                                                   (t1, Some e) \<Rightarrow> Inl e
                                                 | (t1, None) \<Rightarrow>
                                                     Inr (FromGoTime (GoTime_Add t1 Second_ns)))
                                           else Inr tmp) of
                                       Inl e \<Rightarrow> (ZeroDatetime, Some e, ctx)
                                     | Inr tmp \<Rightarrow>
                                         if hasTZ
                                         then (if \<not> hhmmss
                                               then (ZeroDatetime,
                                                     Some (GenWithStack ErrWrongValue DateTimeStr
                                                             [S str]), ctx)
                                               else (case applyTimezone tmp str tzSign tzHour
                                                            tzMinute (StmtContext_Location ctx) of
                                                       (_, Some e) \<Rightarrow> (ZeroDatetime, Some e, ctx)
                                                     | (tmp, None) \<Rightarrow>
                                                         (NewTime tmp TypeDatetime fsp, None, ctx)))
                                         else (NewTime tmp TypeDatetime fsp, None, ctx)))))))"

definition parseTime ::
  "StmtContext \<Rightarrow> string \<Rightarrow> uint8 \<Rightarrow> int \<Rightarrow> Time \<times> error option \<times> StmtContext" where
  "parseTime ctx str tp fsp =
     (case CheckFsp fsp of
        (_, Some err) \<Rightarrow> (NewTime ZeroCoreTime tp DefaultFsp, Some err, ctx)
      | (fsp, None) \<Rightarrow>
          (case parseDatetime ctx str fsp of
             (t, Some err, ctx) \<Rightarrow> (NewTime ZeroCoreTime tp DefaultFsp, Some err, ctx)
           | (t, None, ctx) \<Rightarrow>
               let t = SetType t tp
               in (case Check t ctx of
                     Some err \<Rightarrow>
                       if tp = TypeTimestamp \<and> \<not> IsZero t
                       then (case adjustTimestampErrForDST (StmtContext_Location ctx) str tp t
                                    (Some err) of
                               (tAdjusted, errAdjusted) \<Rightarrow>
                                 if (case errAdjusted of
                                       None \<Rightarrow> False
                                     | Some e \<Rightarrow> TError_Equal ErrTimestampInDSTTransition e)
                                 then (tAdjusted, errAdjusted, ctx)
                                 else (NewTime ZeroCoreTime tp DefaultFsp, Some err, ctx))
                       else (NewTime ZeroCoreTime tp DefaultFsp, Some err, ctx)
                   | None \<Rightarrow> (t, None, ctx))))"

definition ParseTime ::
  "StmtContext \<Rightarrow> string \<Rightarrow> uint8 \<Rightarrow> int \<Rightarrow> Time \<times> error option \<times> StmtContext" where
  "ParseTime ctx str tp fsp = parseTime ctx str tp fsp"

definition ParseDatetime :: "StmtContext \<Rightarrow> string \<Rightarrow> Time \<times> error option \<times> StmtContext" where
  "ParseDatetime ctx str = ParseTime ctx str TypeDatetime (GetFsp str)"


section \<open>Parsing durations\<close>

definition ConvertToDuration :: "Time \<Rightarrow> Duration \<times> error option" where
  "ConvertToDuration t =
     (if IsZero t then (ZeroDuration, None)
      else let hour = Hour (coreTime t); minute = Minute (coreTime t);
               second = Second (coreTime t);
               frac = Microsecond (coreTime t) * 1000;
               d = (hour * 3600 + minute * 60 + second) * Second_ns + frac
           in (\<lparr>Duration = d, Fsp = Time_Fsp t\<rparr>, None))"

definition isNegativeDuration :: "string \<Rightarrow> bool \<times> string" where
  "isNegativeDuration str =
     (case Char str CHR ''-'' of None \<Rightarrow> (False, str) | Some rest \<Rightarrow> (True, rest))"

definition matchColon :: "string \<Rightarrow> string option" where
  "matchColon str =
     (case Char (Space0 str) CHR '':'' of None \<Rightarrow> None | Some rest \<Rightarrow> Some (Space0 rest))"

text \<open>
  The loop of \<open>matchHHMMSSDelimited\<close> for \<open>i\<close> from 1 to 2, unrolled: a missing colon
  ends the loop (and is an error at \<open>i = 1\<close> when a colon is required), a colon that
  is not followed by a number is an error.
\<close>

definition matchHHMMSSDelimited :: "string \<Rightarrow> bool \<Rightarrow> (int list \<times> string) option" where
  "matchHHMMSSDelimited str requireColon =
     (case Number str of
        (hour, rest, Some err) \<Rightarrow> None
      | (hour, rest, None) \<Rightarrow>
          (case matchColon rest of
             None \<Rightarrow> if requireColon then None else Some ([hour, 0, 0], rest)
           | Some remain \<Rightarrow>
               (case Number remain of
                  (num, remain, Some err) \<Rightarrow> None
                | (minute, rest, None) \<Rightarrow>
                    (case matchColon rest of
                       None \<Rightarrow> Some ([hour, minute, 0], rest)
                     | Some remain \<Rightarrow>
                         (case Number remain of
                            (num, remain, Some err) \<Rightarrow> None
                          | (second, rest, None) \<Rightarrow> Some ([hour, minute, second], rest))))))"

definition matchDayHHMMSS :: "string \<Rightarrow> (int \<times> int list \<times> string) option" where
  "matchDayHHMMSS str =
     (case Number str of
        (day, rest, Some err) \<Rightarrow> None
      | (day, rest, None) \<Rightarrow>
          (case Space rest 1 of
             None \<Rightarrow> None
           | Some rest \<Rightarrow>
               (case matchHHMMSSDelimited rest False of
                  None \<Rightarrow> None
                | Some (hhmmss, rest) \<Rightarrow> Some (day, hhmmss, rest))))"

definition matchHHMMSSCompact :: "string \<Rightarrow> (int list \<times> string) option" where
  "matchHHMMSSCompact str =
     (case Number str of
        (num, rest, Some err) \<Rightarrow> None
      | (num, rest, None) \<Rightarrow> Some ([num div 10000, (num div 100) mod 100, num mod 100], rest))"

text \<open>
  \<open>hhmmssAddOverflow\<close> with \<open>overflow = true\<close>: add one to the seconds and carry at
  60 into minutes and hours; hours have no modulus. The increments are on \<open>int\<close>.
\<close>

definition hhmmssAddOverflow :: "int list \<Rightarrow> int list" where
  "hhmmssAddOverflow hms =
     (let s = wrap64 (hms ! 2 + 1)
      in if s = 60
         then (let m = wrap64 (hms ! 1 + 1)
               in if m = 60 then [wrap64 (hms ! 0 + 1), 0, 0] else [hms ! 0, m, 0])
         else [hms ! 0, hms ! 1, s])"

definition checkHHMMSS :: "int list \<Rightarrow> bool" where
  "checkHHMMSS hms = (hms ! 1 < 60 \<and> hms ! 2 < 60)"

definition matchFrac :: "string \<Rightarrow> int \<Rightarrow> bool \<times> int \<times> string \<times> error option" where
  "matchFrac str fsp =
     (case Char str CHR ''.'' of
        None \<Rightarrow> (False, 0, str, None)
      | Some rest \<Rightarrow>
          (case Digit rest 0 of
             None \<Rightarrow> (False, 0, str, Some (Other ''not enough digits''))
           | Some (digits, rest) \<Rightarrow>
               (case ParseFrac digits fsp of
                  (frac, carry, Some err) \<Rightarrow> (False, 0, str, Some err)
                | (frac, carry, None) \<Rightarrow> (carry, frac, rest, None))))"

definition TruncateOverflowMySQLTime :: "int \<Rightarrow> int \<times> error option" where
  "TruncateOverflowMySQLTime d =
     (if d > MaxTime then (MaxTime, Some (GenWithStackByArgs ErrTruncatedWrongVal [S ''time'', N d]))
      else if d < MinTime
      then (MinTime, Some (GenWithStackByArgs ErrTruncatedWrongVal [S ''time'', N d]))
      else (d, None))"

text \<open>
  The three alternatives of \<open>matchDuration\<close>, tried in order: days and a delimited
  time, a delimited time with its first colon, a compact number.
\<close>

definition matchHMS :: "string \<Rightarrow> (int list \<times> string) option" where
  "matchHMS rest =
     (case matchDayHHMMSS rest of
        Some (day, hms, remain) \<Rightarrow> Some (hms[0 := wrap64 (hms ! 0 + wrap64 (24 * day))], remain)
      | None \<Rightarrow>
          (case matchHHMMSSDelimited rest True of
             Some (hms, remain) \<Rightarrow> Some (hms, remain)
           | None \<Rightarrow> matchHHMMSSCompact rest))"

definition matchDuration :: "string \<Rightarrow> int \<Rightarrow> Duration \<times> bool \<times> error option" where
  "matchDuration str fsp =
     (case CheckFsp fsp of
        (_, Some err) \<Rightarrow> (ZeroDuration, True, Some err)
      | (fsp, None) \<Rightarrow>
          if length str = 0
          then (ZeroDuration, True, Some (GenWithStackByArgs ErrTruncatedWrongVal [S ''time'', S str]))
          else (case isNegativeDuration str of (neg, rest) \<Rightarrow>
            let rest = Space0 rest; charsLen = length rest
            in (case matchHMS rest of
                  None \<Rightarrow>
                    (ZeroDuration, True,
                     Some (GenWithStackByArgs ErrTruncatedWrongVal [S ''time'', S str]))
                | Some (hhmmss, rest) \<Rightarrow>
                    (case matchFrac (Space0 rest) fsp of (carry, frac, rest, err) \<Rightarrow>
                       if err \<noteq> None \<or> (length rest > 0 \<and> charsLen \<ge> 12)
                       then (ZeroDuration, True,
                             Some (GenWithStackByArgs ErrTruncatedWrongVal [S ''time'', S str]))
                       else let hhmmss = (if carry then hhmmssAddOverflow hhmmss else hhmmss);
                                frac = (if carry then 0 else frac)
                            in if \<not> checkHHMMSS hhmmss
                               then (ZeroDuration, True,
                                     Some (GenWithStackByArgs ErrTruncatedWrongVal
                                             [S ''time'', S str]))
                               else if hhmmss ! 0 > TimeMaxHour
                               then (\<lparr>Duration = (if neg then MinTime else MaxTime),
                                       Fsp = fsp\<rparr>, False,
                                     Some (GenWithStackByArgs ErrTruncatedWrongVal
                                             [S ''time'', S str]))
                               else let d = wrap64 ((hhmmss ! 0 * 3600 + hhmmss ! 1 * 60
                                                       + hhmmss ! 2) * Second_ns
                                                    + frac * Microsecond_ns);
                                        d = (if neg then wrap64 (- d) else d)
                                    in (case TruncateOverflowMySQLTime d of
                                          (d, None) \<Rightarrow>
                                            if length rest > 0
                                            then (\<lparr>Duration = d, Fsp = fsp\<rparr>, False,
                                                  Some (GenWithStackByArgs ErrTruncatedWrongVal
                                                          [S ''time'', S str]))
                                            else (\<lparr>Duration = d, Fsp = fsp\<rparr>, False, None)
                                        | (d, Some err) \<Rightarrow>
                                            (\<lparr>Duration = d, Fsp = fsp\<rparr>, False, Some err))))))"

definition canFallbackToDateTime :: "string \<Rightarrow> bool" where
  "canFallbackToDateTime str =
     (case Digit str 1 of
        None \<Rightarrow> False
      | Some (digits, rest) \<Rightarrow>
          if length digits = 12 \<or> length digits = 14 then True
          else (case AnyPunct rest of
                  None \<Rightarrow> False
                | Some rest \<Rightarrow>
                    (case Digit rest 1 of
                       None \<Rightarrow> False
                     | Some (_, rest) \<Rightarrow>
                         (case AnyPunct rest of
                            None \<Rightarrow> False
                          | Some rest \<Rightarrow>
                              (case Digit rest 1 of
                                 None \<Rightarrow> False
                               | Some (_, rest) \<Rightarrow>
                                   length rest > 0 \<and>
                                   (hd rest = CHR '' '' \<or> hd rest = CHR ''T''))))))"

text \<open>
  \<open>ParseDuration\<close> returns the duration, whether the result is null, the error and
  the context (the datetime fallback may append warnings).
\<close>

definition ParseDuration ::
  "StmtContext \<Rightarrow> string \<Rightarrow> int \<Rightarrow> Duration \<times> bool \<times> error option \<times> StmtContext" where
  "ParseDuration ctx str fsp =
     (let rest = TrimSpace str
      in case matchDuration rest fsp of
           (d, isNull, None) \<Rightarrow> (d, isNull, None, ctx)
         | (d, isNull, Some err) \<Rightarrow>
             if \<not> canFallbackToDateTime rest
             then (d, isNull, Some (GenWithStackByArgs ErrTruncatedWrongVal [S ''time'', S str]),
                   ctx)
             else (case ParseDatetime ctx rest of
                     (datetime, Some err, ctx) \<Rightarrow>
                       (ZeroDuration, True,
                        Some (GenWithStackByArgs ErrTruncatedWrongVal [S ''time'', S str]), ctx)
                   | (datetime, None, ctx) \<Rightarrow>
                       (case ConvertToDuration datetime of
                          (d, Some err) \<Rightarrow>
                            (ZeroDuration, True,
                             Some (GenWithStackByArgs ErrTruncatedWrongVal [S ''time'', S str]),
                             ctx)
                        | (d, None) \<Rightarrow>
                            (case Duration_RoundFrac d fsp (Some (StmtContext_Location ctx)) of
                               (d, err) \<Rightarrow> (d, False, err, ctx)))))"


section \<open>Enum resolution\<close>

record Enum =
  Name :: string
  Value :: uint64

definition ErrTruncated :: error where "ErrTruncated = TError 1265"

definition zeroEnum :: Enum where "zeroEnum = \<lparr>Name = [], Value = 0\<rparr>"

text \<open>
  \<open>ParseEnumValue\<close>: the error message is built with \<open>fmt.Sprintf\<close> from the number and
  the member count; the model keeps the wrapped constant and leaves the text empty.
  The index \<open>elems[number-1]\<close> is only reached inside the bounds.
\<close>

definition ParseEnumValue :: "string list \<Rightarrow> uint64 \<Rightarrow> Enum \<times> error option" where
  "ParseEnumValue elems number =
     (if number = 0 \<or> number > word_of_nat (length elems)
      then (zeroEnum, Some (Wrap ErrTruncated []))
      else (\<lparr>Name = elems ! (unat number - 1), Value = number\<rparr>, None))"

section \<open>Properties\<close>

subsection \<open>Tag bits and core bits\<close>

lemma fspTtBitFieldMask_eq: "fspTtBitFieldMask = 15"
  by (simp add: fspTtBitFieldMask_def fspTtBitFieldOffset_def fspTtBitFieldWidth_def)

lemma coreTimeBitFieldMask_eq: "coreTimeBitFieldMask = NOT fspTtBitFieldMask"
  by (simp add: coreTimeBitFieldMask_def)

text \<open>A word lies in the tag when it has no bit in common with the core mask.\<close>

lemma tag_const:
  "fspTtForDate AND coreTimeBitFieldMask = 0"
  "(1::uint64) AND coreTimeBitFieldMask = 0"
  "(0::uint64) AND coreTimeBitFieldMask = 0"
  by (simp_all add: coreTimeBitFieldMask_def fspTtBitFieldMask_eq fspTtForDate_def)

lemma tag_getFspTt: "getFspTt t AND coreTimeBitFieldMask = 0"
  by (simp add: getFspTt_def coreTimeBitFieldMask_def and.assoc)

lemma tag_or:
  "y AND coreTimeBitFieldMask = 0 \<Longrightarrow> z AND coreTimeBitFieldMask = 0
   \<Longrightarrow> (y OR z) AND coreTimeBitFieldMask = 0"
  by (simp add: bit.conj_disj_distrib2)

lemma tag_and:
  assumes "y AND coreTimeBitFieldMask = 0"
  shows "(y AND z) AND coreTimeBitFieldMask = 0"
proof -
  have "(y AND z) AND coreTimeBitFieldMask = (y AND coreTimeBitFieldMask) AND z"
    by (simp add: ac_simps)
  with assms show ?thesis by simp
qed

lemma CoreTime_setFspTt:
  "y AND coreTimeBitFieldMask = 0 \<Longrightarrow> CoreTime (setFspTt t y) = CoreTime t"
  by (simp add: CoreTime_def setFspTt_def coreTimeBitFieldMask_eq bit.conj_disj_distrib2
      and.assoc)

lemma CoreTime_SetType: "CoreTime (SetType t tp) = CoreTime t"
  unfolding SetType_def Let_def
  by (intro CoreTime_setFspTt) (simp add: tag_const tag_getFspTt tag_or tag_and)

lemma fsp_in_tag:
  assumes "- 1 \<le> fsp" "fsp \<le> 7"
  shows "push_bit 1 (word_of_int (if fsp = UnspecifiedFsp then DefaultFsp else fsp))
           AND coreTimeBitFieldMask = (0::uint64)"
proof -
  from assms consider "fsp = - 1" | "fsp = 0" | "fsp = 1" | "fsp = 2" | "fsp = 3"
    | "fsp = 4" | "fsp = 5" | "fsp = 6" | "fsp = 7"
    by arith
  then show ?thesis
    by cases (simp_all add: UnspecifiedFsp_def DefaultFsp_def coreTimeBitFieldMask_def
        fspTtBitFieldMask_eq)
qed

lemma CoreTime_SetFsp:
  assumes "- 1 \<le> fsp" "fsp \<le> 7"
  shows "CoreTime (SetFsp t fsp) = CoreTime t"
proof -
  have keep: "(coreTime t AND NOT fspBitFieldMask) AND coreTimeBitFieldMask
                = coreTime t AND coreTimeBitFieldMask"
    by (simp add: and.assoc fspBitFieldMask_def coreTimeBitFieldMask_def fspTtBitFieldMask_eq)
  show ?thesis
    unfolding CoreTime_def SetFsp_def Let_def
    using fsp_in_tag [OF assms] keep by (simp add: bit.conj_disj_distrib2)
qed

lemma CoreTime_SetFsp_Date: "getFspTt t = fspTtForDate \<Longrightarrow> SetFsp t fsp = t"
  by (simp add: SetFsp_def)

text \<open>
  C9. The claim says that \<open>SetType\<close> and \<open>SetFsp\<close>, for every argument, touch only the
  four tag bits. \<open>SetFsp\<close> ORs \<open>uint64(fsp) << 1\<close> into the word without masking it, so
  an fsp of 8 on the zero datetime sets bit 4, the lowest microsecond bit: the core
  time changes.
\<close>

theorem SetFsp_touches_core_counterexample:
  "CoreTime (SetFsp (NewTime ZeroCoreTime TypeDatetime 0) 8)
     \<noteq> CoreTime (NewTime ZeroCoreTime TypeDatetime 0)"
  by (simp add: CoreTime_def SetFsp_def NewTime_def ZeroCoreTime_def ZeroTime_def
      coreTimeBitFieldMask_def TypeDatetime_def TypeDate_def TypeTimestamp_def
      UnspecifiedFsp_def DefaultFsp_def getFspTt_def fspTtBitFieldMask_eq fspTtForDate_def
      fspBitFieldMask_def)

text \<open>
  C9, amended. For every Time \<open>t\<close> and every type argument \<open>tp\<close>, \<open>SetType\<close> leaves the
  60 core bits unchanged; \<open>SetFsp\<close> leaves them unchanged when \<open>t\<close> is a Date (it then
  returns \<open>t\<close> itself) or when fsp lies between -1 (unspecified) and 7, which covers
  every valid fsp 0 to 6. In these cases \<open>t.CoreTime()\<close> is the same before and after.
\<close>

theorem SetType_SetFsp_keep_core:
  "CoreTime (SetType t tp) = CoreTime t \<and>
   (getFspTt t = fspTtForDate \<or> (- 1 \<le> fsp \<and> fsp \<le> 7)
      \<longrightarrow> CoreTime (SetFsp t fsp) = CoreTime t)"
  using CoreTime_SetType CoreTime_SetFsp CoreTime_SetFsp_Date by auto

theorem SetType_SetFsp_keep_core_witness:
  "CoreTime (SetType (NewTime (FromDate 2020 1 2 3 4 5 6) TypeDatetime 3) TypeTimestamp)
     = CoreTime (NewTime (FromDate 2020 1 2 3 4 5 6) TypeDatetime 3) \<and>
   (- 1 \<le> (6::int) \<and> (6::int) \<le> 7) \<and>
   CoreTime (SetFsp (NewTime (FromDate 2020 1 2 3 4 5 6) TypeDatetime 3) 6)
     = CoreTime (NewTime (FromDate 2020 1 2 3 4 5 6) TypeDatetime 3)"
  using SetType_SetFsp_keep_core
    [of "NewTime (FromDate 2020 1 2 3 4 5 6) TypeDatetime 3" TypeTimestamp 6]
  by simp

subsection \<open>Packed encoding round trip\<close>

lemma uint_drop_bit64: "uint (drop_bit n (w::64 word)) = uint w div 2 ^ n"
proof -
  have "uint (drop_bit n w) = drop_bit n (uint w)"
    by (rule bit_eqI) (simp add: bit_unsigned_iff bit_drop_bit_eq)
  then show ?thesis
    by (simp add: drop_bit_eq_div)
qed

lemma uint_and_mask64: "uint ((w::64 word) AND mask n) = uint w mod 2 ^ n"
  by (metis take_bit_eq_mask take_bit_int_def unsigned_take_bit_eq)

lemma or_push_bit_int:
  assumes "0 \<le> b" "b < 2 ^ n"
  shows "(push_bit n (a::int) OR b) = a * 2 ^ n + b"
proof -
  have b: "take_bit n b = b"
    using assms by (simp add: take_bit_int_eq_self)
  have "push_bit n a AND take_bit n b = 0"
    by (rule bit_eqI) (simp add: bit_simps)
  then have "push_bit n a + b = push_bit n a OR b"
    using b by (simp add: disjunctive_add_eq_or)
  then show ?thesis
    by (simp add: push_bit_eq_mult)
qed

lemma sint_small64:
  assumes "uint (w::64 word) < 2 ^ 63"
  shows "sint w = uint w"
proof -
  have "sint w = signed_take_bit 63 (uint w)"
    by (simp add: sint_uint)
  also have "\<dots> = uint w"
  proof (rule signed_take_bit_int_eq_self)
    have "0 \<le> uint w" by simp
    moreover have "- (2 ^ 63) \<le> (0::int)" by simp
    ultimately show "- (2 ^ 63) \<le> uint w" by (rule order_trans [rotated])
    show "uint w < 2 ^ 63" using assms .
  qed
  finally show ?thesis .
qed

lemma uint_and_31: "uint ((w::64 word) AND 31) = uint w mod 32"
  using uint_and_mask64 [of w 5] by (simp add: mask_eq_exp_minus_1)

lemma uint_and_63: "uint ((w::64 word) AND 63) = uint w mod 64"
  using uint_and_mask64 [of w 6] by (simp add: mask_eq_exp_minus_1)

lemma uint_and_131071: "uint ((w::64 word) AND 131071) = uint w mod 131072"
  using uint_and_mask64 [of w 17] by (simp add: mask_eq_exp_minus_1)

lemma field_mask: "push_bit off (push_bit k 1 - 1 :: 64 word) = push_bit off (mask k)"
  by (simp add: mask_eq_exp_minus_1)

lemma drop_and_push_mask:
  "drop_bit off ((t::64 word) AND push_bit off (mask k)) = drop_bit off t AND mask k"
  by (rule bit_eqI) (auto simp add: bit_simps dest: bit_imp_le_length)

lemma field_value:
  assumes "k < 64"
  shows "sint (drop_bit off ((t::64 word) AND push_bit off (push_bit k 1 - 1)))
           = uint t div 2 ^ off mod 2 ^ k"
proof -
  have u: "uint (drop_bit off (t AND push_bit off (push_bit k 1 - 1))) = uint t div 2 ^ off mod 2 ^ k"
    by (simp only: field_mask drop_and_push_mask uint_and_mask64 uint_drop_bit64)
  have "uint t div 2 ^ off mod 2 ^ k < (2::int) ^ k"
    by simp
  also have "(2::int) ^ k \<le> 2 ^ 63"
    using assms by (intro power_increasing) simp_all
  finally have "uint (drop_bit off (t AND push_bit off (push_bit k 1 - 1))) < 2 ^ 63"
    using u by simp
  then show ?thesis
    using u by (simp only: sint_small64)
qed

lemma Year_eq: "Year t = uint t div 2 ^ 50 mod 2 ^ 14"
  unfolding Year_def yearBitFieldMask_def yearBitFieldOffset_def yearBitFieldWidth_def
  by (rule field_value) simp

lemma Month_eq: "Month t = uint t div 2 ^ 46 mod 2 ^ 4"
  unfolding Month_def monthBitFieldMask_def monthBitFieldOffset_def monthBitFieldWidth_def
  by (rule field_value) simp

lemma Day_eq: "Day t = uint t div 2 ^ 41 mod 2 ^ 5"
  unfolding Day_def dayBitFieldMask_def dayBitFieldOffset_def dayBitFieldWidth_def
  by (rule field_value) simp

lemma Hour_eq: "Hour t = uint t div 2 ^ 36 mod 2 ^ 5"
  unfolding Hour_def hourBitFieldMask_def hourBitFieldOffset_def hourBitFieldWidth_def
  by (rule field_value) simp

lemma Minute_eq: "Minute t = uint t div 2 ^ 30 mod 2 ^ 6"
  unfolding Minute_def minuteBitFieldMask_def minuteBitFieldOffset_def minuteBitFieldWidth_def
  by (rule field_value) simp

lemma Second_eq: "Second t = uint t div 2 ^ 24 mod 2 ^ 6"
  unfolding Second_def secondBitFieldMask_def secondBitFieldOffset_def secondBitFieldWidth_def
  by (rule field_value) simp

lemma Microsecond_eq: "Microsecond t = uint t div 2 ^ 4 mod 2 ^ 20"
  unfolding Microsecond_def microsecondBitFieldMask_def microsecondBitFieldOffset_def
    microsecondBitFieldWidth_def
  by (rule field_value) simp

lemma field_back:
  "push_bit off (word_of_int (sint (drop_bit off ((t::64 word) AND push_bit off (push_bit k 1 - 1)))))
     AND push_bit off (push_bit k 1 - 1) = t AND push_bit off (push_bit k 1 - 1)"
  unfolding field_mask of_int_sint
  by (rule bit_eqI) (auto simp add: bit_simps dest: bit_imp_le_length)

lemma masks_union:
  "microsecondBitFieldMask OR secondBitFieldMask OR minuteBitFieldMask OR hourBitFieldMask
     OR dayBitFieldMask OR monthBitFieldMask OR yearBitFieldMask = coreTimeBitFieldMask"
  by (simp add: microsecondBitFieldMask_def secondBitFieldMask_def minuteBitFieldMask_def
      hourBitFieldMask_def dayBitFieldMask_def monthBitFieldMask_def yearBitFieldMask_def
      coreTimeBitFieldMask_def fspTtBitFieldMask_def
      yearBitFieldOffset_def yearBitFieldWidth_def monthBitFieldOffset_def monthBitFieldWidth_def
      dayBitFieldOffset_def dayBitFieldWidth_def hourBitFieldOffset_def hourBitFieldWidth_def
      minuteBitFieldOffset_def minuteBitFieldWidth_def secondBitFieldOffset_def
      secondBitFieldWidth_def microsecondBitFieldOffset_def microsecondBitFieldWidth_def
      fspTtBitFieldOffset_def fspTtBitFieldWidth_def)

lemma FromDate_fields:
  "FromDate (Year t) (Month t) (Day t) (Hour t) (Minute t) (Second t) (Microsecond t)
     = t AND coreTimeBitFieldMask"
proof -
  have "FromDate (Year t) (Month t) (Day t) (Hour t) (Minute t) (Second t) (Microsecond t)
      = (t AND microsecondBitFieldMask) OR (t AND secondBitFieldMask)
          OR (t AND minuteBitFieldMask) OR (t AND hourBitFieldMask) OR (t AND dayBitFieldMask)
          OR (t AND monthBitFieldMask) OR (t AND yearBitFieldMask)"
    unfolding FromDate_def Let_def ZeroCoreTime_def
      Year_def Month_def Day_def Hour_def Minute_def Second_def Microsecond_def
      yearBitFieldMask_def monthBitFieldMask_def dayBitFieldMask_def hourBitFieldMask_def
      minuteBitFieldMask_def secondBitFieldMask_def microsecondBitFieldMask_def
    by (simp only: field_back or.left_neutral or.assoc)
  also have "\<dots> = t AND (microsecondBitFieldMask OR secondBitFieldMask OR minuteBitFieldMask
      OR hourBitFieldMask OR dayBitFieldMask OR monthBitFieldMask OR yearBitFieldMask)"
    by (simp only: bit.conj_disj_distrib or.assoc)
  finally show ?thesis
    by (simp only: masks_union)
qed

lemma div_mod_pack:
  fixes a b k :: int
  assumes "0 \<le> b" "b < k"
  shows "(a * k + b) div k = a" "(a * k + b) mod k = b"
  using assms by simp_all

lemma pack_arith:
  fixes y m d h mi s us :: int
  assumes y: "0 \<le> y" "y < 16384" and m: "0 \<le> m" "m \<le> 12" and d: "0 \<le> d" "d < 32"
    and h: "0 \<le> h" "h < 32" and mi: "0 \<le> mi" "mi < 64" and s: "0 \<le> s" "s < 64"
    and us: "0 \<le> us" "us < 16777216"
  defines "YMD \<equiv> (y * 13 + m) * 32 + d"
  defines "HMS \<equiv> (h * 64 + mi) * 64 + s"
  defines "P \<equiv> (YMD * 131072 + HMS) * 16777216 + us"
  shows "0 \<le> P" "P < 2 ^ 64"
    "P mod 16777216 = us"
    "P div 16777216 div 131072 mod 32 = d"
    "P div 16777216 div 131072 div 32 mod 13 = m"
    "P div 16777216 div 131072 div 32 div 13 = y"
    "P div 16777216 mod 131072 mod 64 = s"
    "P div 16777216 mod 131072 div 64 mod 64 = mi"
    "P div 16777216 mod 131072 div 4096 = h"
proof -
  have hms: "0 \<le> HMS" "HMS < 131072"
    using h mi s unfolding HMS_def by auto
  have ymd: "0 \<le> YMD" "YMD < 6815744"
    using y m d unfolding YMD_def by auto
  have p1: "P div 16777216 = YMD * 131072 + HMS"
    unfolding P_def by (rule div_mod_pack(1) [OF us])
  have p2: "P mod 16777216 = us"
    unfolding P_def by (rule div_mod_pack(2) [OF us])
  have q1: "(YMD * 131072 + HMS) div 131072 = YMD"
    by (rule div_mod_pack(1) [OF hms])
  have q2: "(YMD * 131072 + HMS) mod 131072 = HMS"
    by (rule div_mod_pack(2) [OF hms])
  have r1: "YMD div 32 = y * 13 + m"
    unfolding YMD_def by (rule div_mod_pack(1) [OF d])
  have r2: "YMD mod 32 = d"
    unfolding YMD_def by (rule div_mod_pack(2) [OF d])
  have m13: "m < 13" using m by simp
  have s1: "(y * 13 + m) div 13 = y"
    by (rule div_mod_pack(1) [OF m(1) m13])
  have s2: "(y * 13 + m) mod 13 = m"
    by (rule div_mod_pack(2) [OF m(1) m13])
  have t1: "HMS div 64 = h * 64 + mi"
    unfolding HMS_def by (rule div_mod_pack(1) [OF s])
  have t2: "HMS mod 64 = s"
    unfolding HMS_def by (rule div_mod_pack(2) [OF s])
  have t3: "(h * 64 + mi) mod 64 = mi"
    by (rule div_mod_pack(2) [OF mi])
  have t4: "(h * 64 + mi) div 64 = h"
    by (rule div_mod_pack(1) [OF mi])
  have t5: "HMS div 4096 = h"
  proof -
    have "HMS div 4096 = HMS div 64 div 64"
      by (simp add: zdiv_zmult2_eq)
    then show ?thesis using t1 t4 by simp
  qed
  show "0 \<le> P" unfolding P_def using ymd hms us by auto
  show "P < 2 ^ 64" unfolding P_def using ymd hms us by auto
  show "P mod 16777216 = us" by (rule p2)
  show "P div 16777216 div 131072 mod 32 = d" by (simp only: p1 q1 r2)
  show "P div 16777216 div 131072 div 32 mod 13 = m" by (simp only: p1 q1 r1 s2)
  show "P div 16777216 div 131072 div 32 div 13 = y" by (simp only: p1 q1 r1 s1)
  show "P div 16777216 mod 131072 mod 64 = s" by (simp only: p1 q2 t2)
  show "P div 16777216 mod 131072 div 64 mod 64 = mi" by (simp only: p1 q2 t1 t3)
  show "P div 16777216 mod 131072 div 4096 = h" by (simp only: p1 q2 t5)
qed

lemma uint_drop_small:
  assumes "0 < n"
  shows "uint (drop_bit n (w::64 word)) < 2 ^ 63"
proof -
  have lt: "uint w < 2 ^ 64" using uint_lt2p [of w] by simp
  have "uint w div 2 ^ n \<le> uint w div 2"
  proof -
    have "(2::int) ^ 1 \<le> 2 ^ n" using assms by (intro power_increasing) simp_all
    then have "(2::int) \<le> 2 ^ n" by simp
    then show ?thesis by (intro zdiv_mono2) simp_all
  qed
  moreover have "uint w div 2 < 2 ^ 63"
    using lt by simp
  ultimately show ?thesis
    by (simp only: uint_drop_bit64)
qed

lemma mask_consts:
  "(push_bit 5 1 - 1 :: 64 word) = 31" "(push_bit 6 1 - 1 :: 64 word) = 63"
  "(push_bit 17 1 - 1 :: 64 word) = 131071" "(push_bit 24 1 :: 64 word) = 16777216"
  by simp_all

lemma pow_consts:
  "(2::int) ^ 24 = 16777216" "(2::int) ^ 17 = 131072" "(2::int) ^ 5 = 32" "(2::int) ^ 6 = 64"
  "(2::int) ^ 12 = 4096"
  by simp_all

lemma sint_mod_small:
  assumes "uint (x::64 word) = a mod k" "0 < k" "k \<le> 2 ^ 63"
  shows "sint x = a mod k"
proof -
  have "a mod k < k" using assms(2) by simp
  then have "uint x < 2 ^ 63" using assms(1,3) by simp
  then show ?thesis using assms(1) by (simp only: sint_small64)
qed

lemma dec_day:
  "sint (drop_bit 17 (drop_bit 24 (p::64 word)) AND (push_bit 5 1 - 1))
     = uint p div 16777216 div 131072 mod 32"
proof (rule sint_mod_small)
  show "uint (drop_bit 17 (drop_bit 24 p) AND (push_bit 5 1 - 1))
      = uint p div 16777216 div 131072 mod 32"
    by (simp only: mask_consts uint_and_31 uint_drop_bit64 pow_consts)
qed simp_all

lemma dec_month:
  "sint (drop_bit 5 (drop_bit 17 (drop_bit 24 (p::64 word))) mod 13)
     = uint p div 16777216 div 131072 div 32 mod 13"
proof (rule sint_mod_small)
  have "uint (13::64 word) = 13" by simp
  then show "uint (drop_bit 5 (drop_bit 17 (drop_bit 24 p)) mod 13)
      = uint p div 16777216 div 131072 div 32 mod 13"
    by (simp only: uint_mod uint_drop_bit64 pow_consts)
qed simp_all

lemma dec_year:
  "sint (drop_bit 5 (drop_bit 17 (drop_bit 24 (p::64 word))) div 13)
     = uint p div 16777216 div 131072 div 32 div 13"
proof -
  have c: "uint (13::64 word) = 13" by simp
  have u: "uint (drop_bit 5 (drop_bit 17 (drop_bit 24 p)) div 13)
      = uint p div 16777216 div 131072 div 32 div 13"
    by (simp only: uint_div uint_drop_bit64 pow_consts c)
  have "uint (drop_bit 5 (drop_bit 17 (drop_bit 24 p))) < 2 ^ 63"
    by (rule uint_drop_small) simp
  moreover have "uint (drop_bit 5 (drop_bit 17 (drop_bit 24 p)) div 13)
      \<le> uint (drop_bit 5 (drop_bit 17 (drop_bit 24 p)))"
  proof -
    have "uint (drop_bit 5 (drop_bit 17 (drop_bit 24 p))) div 13
        \<le> uint (drop_bit 5 (drop_bit 17 (drop_bit 24 p))) div 1"
      by (intro zdiv_mono2) simp_all
    then show ?thesis by (simp only: uint_div c div_by_1)
  qed
  ultimately have "uint (drop_bit 5 (drop_bit 17 (drop_bit 24 p)) div 13) < 2 ^ 63"
    by (rule le_less_trans [rotated])
  then have "sint (drop_bit 5 (drop_bit 17 (drop_bit 24 p)) div 13)
      = uint (drop_bit 5 (drop_bit 17 (drop_bit 24 p)) div 13)"
    by (rule sint_small64)
  with u show ?thesis by simp
qed

lemma dec_second:
  "sint ((drop_bit 24 (p::64 word) AND (push_bit 17 1 - 1)) AND (push_bit 6 1 - 1))
     = uint p div 16777216 mod 131072 mod 64"
proof (rule sint_mod_small)
  show "uint ((drop_bit 24 p AND (push_bit 17 1 - 1)) AND (push_bit 6 1 - 1))
      = uint p div 16777216 mod 131072 mod 64"
    by (simp only: mask_consts uint_and_63 uint_and_131071 uint_drop_bit64 pow_consts)
qed simp_all

lemma dec_minute:
  "sint (drop_bit 6 (drop_bit 24 (p::64 word) AND (push_bit 17 1 - 1)) AND (push_bit 6 1 - 1))
     = uint p div 16777216 mod 131072 div 64 mod 64"
proof (rule sint_mod_small)
  show "uint (drop_bit 6 (drop_bit 24 p AND (push_bit 17 1 - 1)) AND (push_bit 6 1 - 1))
      = uint p div 16777216 mod 131072 div 64 mod 64"
    by (simp only: mask_consts uint_and_63 uint_and_131071 uint_drop_bit64 pow_consts)
qed simp_all

lemma dec_hour:
  "sint (drop_bit 12 (drop_bit 24 (p::64 word) AND (push_bit 17 1 - 1)))
     = uint p div 16777216 mod 131072 div 4096"
proof -
  have u: "uint (drop_bit 12 (drop_bit 24 p AND (push_bit 17 1 - 1)))
      = uint p div 16777216 mod 131072 div 4096"
    by (simp only: mask_consts uint_and_131071 uint_drop_bit64 pow_consts)
  have "uint (drop_bit 12 (drop_bit 24 p AND (push_bit 17 1 - 1))) < 2 ^ 63"
    by (rule uint_drop_small) simp
  then have "sint (drop_bit 12 (drop_bit 24 p AND (push_bit 17 1 - 1)))
      = uint (drop_bit 12 (drop_bit 24 p AND (push_bit 17 1 - 1)))"
    by (rule sint_small64)
  with u show ?thesis by simp
qed

lemma dec_micro:
  "sint ((p::64 word) mod push_bit 24 1) = uint p mod 16777216"
proof (rule sint_mod_small)
  have "uint (16777216::64 word) = 16777216" by simp
  then show "uint (p mod push_bit 24 1) = uint p mod 16777216"
    by (simp only: mask_consts uint_mod)
qed simp_all

lemma FromPackedUint_decode:
  assumes "p \<noteq> 0"
  shows "FromPackedUint r p =
    (SetCoreTime r (FromDate (uint p div 16777216 div 131072 div 32 div 13)
        (uint p div 16777216 div 131072 div 32 mod 13)
        (uint p div 16777216 div 131072 mod 32)
        (uint p div 16777216 mod 131072 div 4096)
        (uint p div 16777216 mod 131072 div 64 mod 64)
        (uint p div 16777216 mod 131072 mod 64)
        (uint p mod 16777216)), None)"
  using assms unfolding FromPackedUint_def Let_def
  by (simp only: dec_day dec_month dec_year dec_second dec_minute dec_hour dec_micro if_False)

lemma or_mult_int:
  assumes "0 \<le> b" "b < 2 ^ n"
  shows "((a::int) * 2 ^ n OR b) = a * 2 ^ n + b"
  using or_push_bit_int [OF assms, of a] by (simp add: push_bit_eq_mult)

lemma pack_int:
  fixes y m d h mi s us :: int
  assumes d: "0 \<le> d" "d < 32" and mi: "0 \<le> mi" "mi < 64" and s: "0 \<le> s" "s < 64"
    and h: "0 \<le> h" "h < 32" and us: "0 \<le> us" "us < 16777216"
  shows "push_bit 24 (push_bit 17 (push_bit 5 (y * 13 + m) OR d)
            OR ((push_bit 12 h OR push_bit 6 mi) OR s)) OR us
         = ((((y * 13 + m) * 32 + d) * 131072 + ((h * 64 + mi) * 64 + s)) * 16777216 + us)"
proof -
  have a: "push_bit 5 (y * 13 + m) OR d = (y * 13 + m) * 32 + d"
    using or_push_bit_int [of d 5 "y * 13 + m"] d by simp
  have "push_bit 12 h OR push_bit 6 mi = push_bit 6 (push_bit 6 h OR mi)"
    by (simp add: push_bit_or push_bit_push_bit)
  also have "push_bit 6 h OR mi = h * 64 + mi"
    using or_push_bit_int [of mi 6 h] mi by simp
  finally have b: "push_bit 12 h OR push_bit 6 mi = push_bit 6 (h * 64 + mi)" .
  have c: "push_bit 6 (h * 64 + mi) OR s = (h * 64 + mi) * 64 + s"
    using or_push_bit_int [of s 6 "h * 64 + mi"] s by simp
  have hms: "0 \<le> (h * 64 + mi) * 64 + s" "(h * 64 + mi) * 64 + s < 2 ^ 17"
    using h mi s by auto
  have e: "push_bit 17 ((y * 13 + m) * 32 + d) OR ((h * 64 + mi) * 64 + s)
      = ((y * 13 + m) * 32 + d) * 131072 + ((h * 64 + mi) * 64 + s)"
    using or_push_bit_int [OF hms, of "(y * 13 + m) * 32 + d"] by simp
  have us': "us < 2 ^ 24" using us by simp
  have f: "push_bit 24 (((y * 13 + m) * 32 + d) * 131072 + ((h * 64 + mi) * 64 + s)) OR us
      = (((y * 13 + m) * 32 + d) * 131072 + ((h * 64 + mi) * 64 + s)) * 16777216 + us"
    using or_push_bit_int [OF us(1) us', of "((y * 13 + m) * 32 + d) * 131072 + ((h * 64 + mi) * 64 + s)"]
    by simp
  show ?thesis
    by (simp only: a b c e f)
qed

lemma field_bounds:
  "0 \<le> Year c" "Year c < 16384" "0 \<le> Month c" "Month c < 16" "0 \<le> Day c" "Day c < 32"
  "0 \<le> Hour c" "Hour c < 32" "0 \<le> Minute c" "Minute c < 64" "0 \<le> Second c" "Second c < 64"
  "0 \<le> Microsecond c" "Microsecond c < 1048576"
  by (simp_all add: Year_eq Month_eq Day_eq Hour_eq Minute_eq Second_eq Microsecond_eq)

lemma fields_of_zero:
  "Year 0 = 0" "Month 0 = 0" "Day 0 = 0" "Hour 0 = 0" "Minute 0 = 0" "Second 0 = 0"
  "Microsecond 0 = 0"
  by (simp_all add: Year_eq Month_eq Day_eq Hour_eq Minute_eq Second_eq Microsecond_eq)

lemma decimal_sum_zero:
  fixes a b c d e f :: int
  assumes "0 \<le> a" "0 \<le> b" "0 \<le> c" "0 \<le> d" "0 \<le> e" "0 \<le> f"
  shows "((a * 10000 + b * 100 + c) * 1000000 + (d * 10000 + e * 100 + f) = 0)
           = (a = 0 \<and> b = 0 \<and> c = 0 \<and> d = 0 \<and> e = 0 \<and> f = 0)"
  using assms by (simp add: add_nonneg_eq_0_iff)

lemma decimal_sum_nonneg:
  fixes a b c d e f :: int
  assumes "0 \<le> a" "0 \<le> b" "0 \<le> c" "0 \<le> d" "0 \<le> e" "0 \<le> f"
  shows "0 \<le> (a * 10000 + b * 100 + c) * 1000000 + (d * 10000 + e * 100 + f)"
  using assms by simp

lemma IsZero_iff:
  "IsZero t \<longleftrightarrow>
     Year (coreTime t) = 0 \<and> Month (coreTime t) = 0 \<and> Day (coreTime t) = 0 \<and>
     Hour (coreTime t) = 0 \<and> Minute (coreTime t) = 0 \<and> Second (coreTime t) = 0 \<and>
     Microsecond (coreTime t) = 0"
proof -
  let ?c = "coreTime t"
  have z: "datetimeToUint64 0 = 0"
    by (simp add: datetimeToUint64_def fields_of_zero)
  have nn: "0 \<le> datetimeToUint64 ?c"
    unfolding datetimeToUint64_def
    by (rule decimal_sum_nonneg) (rule field_bounds)+
  have dz: "datetimeToUint64 ?c = 0 \<longleftrightarrow>
      Year ?c = 0 \<and> Month ?c = 0 \<and> Day ?c = 0 \<and> Hour ?c = 0 \<and> Minute ?c = 0 \<and> Second ?c = 0"
    unfolding datetimeToUint64_def
    by (rule decimal_sum_zero) (rule field_bounds)+
  have "IsZero t \<longleftrightarrow> datetimeToUint64 ?c = 0 \<and> Microsecond ?c = 0"
    unfolding IsZero_def compareTime_def ZeroCoreTime_def z fields_of_zero
    using nn field_bounds(13) [of ?c] by auto
  then show ?thesis using dz by simp
qed

lemma micro_lt: "Microsecond c < 16777216"
  using field_bounds(14) [of c] by simp

lemma ToPackedUint_nonzero:
  assumes "\<not> IsZero t"
  shows "ToPackedUint t = (word_of_int (packInt (coreTime t)), None)"
proof -
  let ?c = "coreTime t"
  have "ToPackedUint t =
      (word_of_int (push_bit 24 (push_bit 17 (push_bit 5 (Year ?c * 13 + Month ?c) OR Day ?c)
          OR ((push_bit 12 (Hour ?c) OR push_bit 6 (Minute ?c)) OR Second ?c))
          OR Microsecond ?c), None)"
    using assms unfolding ToPackedUint_def Let_def
    by (simp only: if_False push_bit_of_int flip: of_int_or_eq)
  also have "push_bit 24 (push_bit 17 (push_bit 5 (Year ?c * 13 + Month ?c) OR Day ?c)
          OR ((push_bit 12 (Hour ?c) OR push_bit 6 (Minute ?c)) OR Second ?c))
          OR Microsecond ?c = packInt ?c"
    unfolding packInt_def
    by (rule pack_int) (rule field_bounds micro_lt)+
  finally show ?thesis .
qed

lemma packInt_range:
  assumes "Month c \<le> 12"
  shows "0 \<le> packInt c" "packInt c < 2 ^ 64"
  unfolding packInt_def
  by (rule pack_arith; (rule field_bounds micro_lt assms)?)+

lemma uint_packInt:
  assumes "Month c \<le> 12"
  shows "uint (word_of_int (packInt c) :: 64 word) = packInt c"
  using packInt_range [OF assms] by (simp add: uint_word_of_int take_bit_int_eq_self flip: take_bit_eq_mod)

lemma packInt_decode:
  assumes "Month c \<le> 12"
  shows "packInt c div 16777216 div 131072 div 32 div 13 = Year c"
    "packInt c div 16777216 div 131072 div 32 mod 13 = Month c"
    "packInt c div 16777216 div 131072 mod 32 = Day c"
    "packInt c div 16777216 mod 131072 div 4096 = Hour c"
    "packInt c div 16777216 mod 131072 div 64 mod 64 = Minute c"
    "packInt c div 16777216 mod 131072 mod 64 = Second c"
    "packInt c mod 16777216 = Microsecond c"
  unfolding packInt_def
  by (rule pack_arith; (rule field_bounds micro_lt assms)?)+

lemma packInt_zero:
  assumes "Month c \<le> 12" "packInt c = 0"
  shows "Year c = 0 \<and> Month c = 0 \<and> Day c = 0 \<and> Hour c = 0 \<and> Minute c = 0 \<and> Second c = 0
         \<and> Microsecond c = 0"
  using packInt_decode [OF assms(1)] unfolding assms(2) by simp

lemma CoreTime_zero:
  assumes "IsZero t"
  shows "CoreTime t = ZeroCoreTime"
proof -
  have "CoreTime t = FromDate 0 0 0 0 0 0 0"
    using assms FromDate_fields [of "coreTime t"] unfolding IsZero_iff CoreTime_def by simp
  then show ?thesis
    by (simp add: FromDate_def ZeroCoreTime_def)
qed

lemma round_trip_core:
  assumes "Month (coreTime t) \<le> 12"
  shows "FromPackedUint r (fst (ToPackedUint t)) = (SetCoreTime r (CoreTime t), None)"
proof (cases "IsZero t")
  case True
  then show ?thesis
    by (simp add: ToPackedUint_def FromPackedUint_def CoreTime_zero)
next
  case False
  let ?c = "coreTime t"
  let ?p = "word_of_int (packInt ?c) :: 64 word"
  have u: "uint ?p = packInt ?c"
    by (rule uint_packInt [OF assms])
  have nz: "?p \<noteq> 0"
  proof
    assume "?p = 0"
    then have "uint ?p = 0" by simp
    then have "packInt ?c = 0" using u by simp
    then have "IsZero t"
      using packInt_zero [OF assms] unfolding IsZero_iff by simp
    with False show False by simp
  qed
  have "FromPackedUint r ?p = (SetCoreTime r (FromDate (Year ?c) (Month ?c) (Day ?c) (Hour ?c)
      (Minute ?c) (Second ?c) (Microsecond ?c)), None)"
    unfolding FromPackedUint_decode [OF nz] u packInt_decode [OF assms] ..
  then show ?thesis
    unfolding ToPackedUint_nonzero [OF False] FromDate_fields CoreTime_def by simp
qed

lemma SetCoreTime_self: "SetCoreTime t (CoreTime t) = t"
proof -
  have "(coreTime t AND NOT coreTimeBitFieldMask)
          OR ((coreTime t AND coreTimeBitFieldMask) AND coreTimeBitFieldMask) = coreTime t"
    by (rule bit_eqI) (auto simp add: bit_simps)
  then show ?thesis
    by (simp add: SetCoreTime_def CoreTime_def)
qed

lemma packInt_layout:
  "packInt c = (Year c * 13 + Month c) * 2 ^ 46 + Day c * 2 ^ 41 + Hour c * 2 ^ 36
                 + Minute c * 2 ^ 30 + Second c * 2 ^ 24 + Microsecond c"
  unfolding packInt_def by simp

lemma SetCoreTime_split:
  "SetCoreTime r (CoreTime t) = Time (CoreTime t OR getFspTt r)"
proof -
  have "(coreTime r AND NOT coreTimeBitFieldMask)
          OR ((coreTime t AND coreTimeBitFieldMask) AND coreTimeBitFieldMask)
        = (coreTime t AND coreTimeBitFieldMask) OR (coreTime r AND fspTtBitFieldMask)"
    unfolding coreTimeBitFieldMask_eq
    by (rule bit_eqI) (auto simp add: bit_simps)
  then show ?thesis
    by (simp add: SetCoreTime_def CoreTime_def getFspTt_def)
qed

lemma CoreTime_SetCoreTime: "CoreTime (SetCoreTime r ct) = ct AND coreTimeBitFieldMask"
proof -
  have "((coreTime r AND NOT coreTimeBitFieldMask) OR (ct AND coreTimeBitFieldMask))
          AND coreTimeBitFieldMask = ct AND coreTimeBitFieldMask"
    by (rule bit_eqI) (auto simp add: bit_simps)
  then show ?thesis
    by (simp add: SetCoreTime_def CoreTime_def)
qed

lemma getFspTt_SetCoreTime: "getFspTt (SetCoreTime r ct) = getFspTt r"
proof -
  have "((coreTime r AND NOT coreTimeBitFieldMask) OR (ct AND coreTimeBitFieldMask))
          AND fspTtBitFieldMask = coreTime r AND fspTtBitFieldMask"
    unfolding coreTimeBitFieldMask_eq
    by (rule bit_eqI) (auto simp add: bit_simps)
  then show ?thesis
    by (simp add: SetCoreTime_def getFspTt_def)
qed

lemma CoreTime_idem: "CoreTime t AND coreTimeBitFieldMask = CoreTime t"
  by (simp add: CoreTime_def and.assoc)

lemma core_or_tag: "CoreTime t OR getFspTt t = coreTime t"
  unfolding CoreTime_def getFspTt_def coreTimeBitFieldMask_eq
  by (rule bit_eqI) (auto simp add: bit_simps)

lemma field_in_core:
  "coreTimeBitFieldMask AND yearBitFieldMask = yearBitFieldMask"
  "coreTimeBitFieldMask AND monthBitFieldMask = monthBitFieldMask"
  "coreTimeBitFieldMask AND dayBitFieldMask = dayBitFieldMask"
  "coreTimeBitFieldMask AND hourBitFieldMask = hourBitFieldMask"
  "coreTimeBitFieldMask AND minuteBitFieldMask = minuteBitFieldMask"
  "coreTimeBitFieldMask AND secondBitFieldMask = secondBitFieldMask"
  "coreTimeBitFieldMask AND microsecondBitFieldMask = microsecondBitFieldMask"
  by (simp_all add: microsecondBitFieldMask_def secondBitFieldMask_def minuteBitFieldMask_def
      hourBitFieldMask_def dayBitFieldMask_def monthBitFieldMask_def yearBitFieldMask_def
      coreTimeBitFieldMask_def fspTtBitFieldMask_def
      yearBitFieldOffset_def yearBitFieldWidth_def monthBitFieldOffset_def monthBitFieldWidth_def
      dayBitFieldOffset_def dayBitFieldWidth_def hourBitFieldOffset_def hourBitFieldWidth_def
      minuteBitFieldOffset_def minuteBitFieldWidth_def secondBitFieldOffset_def
      secondBitFieldWidth_def microsecondBitFieldOffset_def microsecondBitFieldWidth_def
      fspTtBitFieldOffset_def fspTtBitFieldWidth_def)

lemma fields_of_core:
  "Year (c AND coreTimeBitFieldMask) = Year c"
  "Month (c AND coreTimeBitFieldMask) = Month c"
  "Day (c AND coreTimeBitFieldMask) = Day c"
  "Hour (c AND coreTimeBitFieldMask) = Hour c"
  "Minute (c AND coreTimeBitFieldMask) = Minute c"
  "Second (c AND coreTimeBitFieldMask) = Second c"
  "Microsecond (c AND coreTimeBitFieldMask) = Microsecond c"
  unfolding Year_def Month_def Day_def Hour_def Minute_def Second_def Microsecond_def
  by (simp_all only: and.assoc field_in_core)

lemma fields_of_CoreTime:
  assumes "CoreTime x = CoreTime t"
  shows "Year (coreTime x) = Year (coreTime t) \<and> Month (coreTime x) = Month (coreTime t) \<and>
         Day (coreTime x) = Day (coreTime t) \<and> Hour (coreTime x) = Hour (coreTime t) \<and>
         Minute (coreTime x) = Minute (coreTime t) \<and> Second (coreTime x) = Second (coreTime t) \<and>
         Microsecond (coreTime x) = Microsecond (coreTime t)"
proof -
  have e: "coreTime x AND coreTimeBitFieldMask = coreTime t AND coreTimeBitFieldMask"
    using assms by (simp add: CoreTime_def)
  show ?thesis
    using fields_of_core [of "coreTime x", unfolded e] fields_of_core [of "coreTime t"]
    by simp
qed

text \<open>
  C1. For every valid Time \<open>t\<close> (its month field at most 12), decoding the packed
  encoding of \<open>t\<close> restores \<open>t\<close> exactly, and neither direction reports an error.
  \<open>FromPackedUint\<close> called on any receiver \<open>r\<close> leaves the Time whose 60 core bits are
  those of \<open>t\<close> and whose four tag bits are those of \<open>r\<close>: its year, month, day,
  hour, minute, second and microsecond are those of \<open>t\<close>, and it is \<open>t\<close> itself as
  soon as \<open>r\<close> has the tag of \<open>t\<close>, in particular when \<open>r\<close> is \<open>t\<close>. The zero Time
  encodes as 0. A non-zero Time encodes, from the most significant bit, as one
  reserved bit (zero for years up to 9999), 17 bits of \<open>year * 13 + month\<close>, 5 bits of
  day, 5 of hour, 6 of minute, 6 of second and 24 of microsecond.
\<close>

theorem packed_round_trip:
  assumes "Month (coreTime t) \<le> 12"
  shows "snd (ToPackedUint t) = None \<and>
         FromPackedUint t (fst (ToPackedUint t)) = (t, None) \<and>
         FromPackedUint r (fst (ToPackedUint t)) = (Time (CoreTime t OR getFspTt r), None) \<and>
         CoreTime (fst (FromPackedUint r (fst (ToPackedUint t)))) = CoreTime t \<and>
         getFspTt (fst (FromPackedUint r (fst (ToPackedUint t)))) = getFspTt r \<and>
         Year (coreTime (fst (FromPackedUint r (fst (ToPackedUint t))))) = Year (coreTime t) \<and>
         Month (coreTime (fst (FromPackedUint r (fst (ToPackedUint t))))) = Month (coreTime t) \<and>
         Day (coreTime (fst (FromPackedUint r (fst (ToPackedUint t))))) = Day (coreTime t) \<and>
         Hour (coreTime (fst (FromPackedUint r (fst (ToPackedUint t))))) = Hour (coreTime t) \<and>
         Minute (coreTime (fst (FromPackedUint r (fst (ToPackedUint t)))))
           = Minute (coreTime t) \<and>
         Second (coreTime (fst (FromPackedUint r (fst (ToPackedUint t)))))
           = Second (coreTime t) \<and>
         Microsecond (coreTime (fst (FromPackedUint r (fst (ToPackedUint t)))))
           = Microsecond (coreTime t) \<and>
         (getFspTt r = getFspTt t \<longrightarrow> FromPackedUint r (fst (ToPackedUint t)) = (t, None)) \<and>
         (IsZero t \<longrightarrow> fst (ToPackedUint t) = 0) \<and>
         (\<not> IsZero t \<longrightarrow>
            uint (fst (ToPackedUint t)) =
              (Year (coreTime t) * 13 + Month (coreTime t)) * 2 ^ 46
                + Day (coreTime t) * 2 ^ 41 + Hour (coreTime t) * 2 ^ 36
                + Minute (coreTime t) * 2 ^ 30 + Second (coreTime t) * 2 ^ 24
                + Microsecond (coreTime t)) \<and>
         (Year (coreTime t) \<le> 9999 \<longrightarrow>
            Year (coreTime t) * 13 + Month (coreTime t) < 2 ^ 17) \<and>
         0 \<le> Year (coreTime t) * 13 + Month (coreTime t) \<and>
         0 \<le> Day (coreTime t) \<and> Day (coreTime t) < 2 ^ 5 \<and>
         0 \<le> Hour (coreTime t) \<and> Hour (coreTime t) < 2 ^ 5 \<and>
         0 \<le> Minute (coreTime t) \<and> Minute (coreTime t) < 2 ^ 6 \<and>
         0 \<le> Second (coreTime t) \<and> Second (coreTime t) < 2 ^ 6 \<and>
         0 \<le> Microsecond (coreTime t) \<and> Microsecond (coreTime t) < 2 ^ 24"
proof -
  let ?c = "coreTime t"
  let ?d = "fst (FromPackedUint r (fst (ToPackedUint t)))"
  have a: "snd (ToPackedUint t) = None"
    by (cases "IsZero t") (simp_all add: ToPackedUint_nonzero, simp add: ToPackedUint_def)
  have b: "FromPackedUint t (fst (ToPackedUint t)) = (t, None)"
    using round_trip_core [OF assms, of t] by (simp only: SetCoreTime_self)
  have c: "FromPackedUint r (fst (ToPackedUint t)) = (Time (CoreTime t OR getFspTt r), None)"
    using round_trip_core [OF assms, of r] by (simp only: SetCoreTime_split)
  have d: "?d = SetCoreTime r (CoreTime t)"
    using round_trip_core [OF assms, of r] by simp
  have core: "CoreTime ?d = CoreTime t"
    unfolding d by (simp only: CoreTime_SetCoreTime CoreTime_idem)
  have tag: "getFspTt ?d = getFspTt r"
    unfolding d by (rule getFspTt_SetCoreTime)
  note flds = fields_of_CoreTime [OF core]
  have same: "getFspTt r = getFspTt t \<longrightarrow> FromPackedUint r (fst (ToPackedUint t)) = (t, None)"
  proof
    assume "getFspTt r = getFspTt t"
    then show "FromPackedUint r (fst (ToPackedUint t)) = (t, None)"
      unfolding c by (simp add: core_or_tag)
  qed
  have z: "IsZero t \<longrightarrow> fst (ToPackedUint t) = 0"
    by (simp add: ToPackedUint_def)
  have e: "\<not> IsZero t \<longrightarrow> uint (fst (ToPackedUint t)) =
      (Year ?c * 13 + Month ?c) * 2 ^ 46 + Day ?c * 2 ^ 41 + Hour ?c * 2 ^ 36
        + Minute ?c * 2 ^ 30 + Second ?c * 2 ^ 24 + Microsecond ?c"
    using uint_packInt [OF assms] by (simp add: ToPackedUint_nonzero packInt_layout)
  have f: "Year ?c \<le> 9999 \<longrightarrow> Year ?c * 13 + Month ?c < 2 ^ 17"
    using assms by simp
  have g: "0 \<le> Year ?c * 13 + Month ?c"
    using field_bounds(1,3) [of ?c] by simp
  from a b c core tag flds same z e f g field_bounds [of ?c] micro_lt [of ?c] show ?thesis
    by simp
qed

text \<open>
  The word below is the datetime 2020-10-11 12:13:14.123456 with fsp 6; the receiver
  \<open>Time 12\<close> is the zero datetime with fsp 6, which has the same tag.
\<close>

theorem packed_round_trip_witness:
  "Month (coreTime (Time 2275046527348909068)) \<le> 12 \<and>
   \<not> IsZero (Time 2275046527348909068) \<and>
   Year (coreTime (Time 2275046527348909068)) \<le> 9999 \<and>
   getFspTt (Time 12) = getFspTt (Time 2275046527348909068) \<and>
   FromPackedUint (Time 2275046527348909068) (fst (ToPackedUint (Time 2275046527348909068)))
     = (Time 2275046527348909068, None) \<and>
   FromPackedUint (Time 12) (fst (ToPackedUint (Time 2275046527348909068)))
     = (Time 2275046527348909068, None) \<and>
   uint (fst (ToPackedUint (Time 2275046527348909068))) = 1848611937630413376"
proof -
  have m: "Month (coreTime (Time 2275046527348909068)) \<le> 12"
    by (simp add: Month_eq)
  have y: "Year (coreTime (Time 2275046527348909068)) \<le> 9999"
    by (simp add: Year_eq)
  have nz: "\<not> IsZero (Time 2275046527348909068)"
    by (simp add: IsZero_iff Year_eq)
  have tg: "getFspTt (Time 12) = getFspTt (Time 2275046527348909068)"
    by (simp add: getFspTt_def fspTtBitFieldMask_eq)
  have v: "(Year (coreTime (Time 2275046527348909068)) * 13
              + Month (coreTime (Time 2275046527348909068))) * 2 ^ 46
            + Day (coreTime (Time 2275046527348909068)) * 2 ^ 41
            + Hour (coreTime (Time 2275046527348909068)) * 2 ^ 36
            + Minute (coreTime (Time 2275046527348909068)) * 2 ^ 30
            + Second (coreTime (Time 2275046527348909068)) * 2 ^ 24
            + Microsecond (coreTime (Time 2275046527348909068)) = 1848611937630413376"
    by (simp add: Year_eq Month_eq Day_eq Hour_eq Minute_eq Second_eq Microsecond_eq)
  note rt = packed_round_trip [where r = "Time 12", OF m]
  from rt have b: "FromPackedUint (Time 2275046527348909068)
      (fst (ToPackedUint (Time 2275046527348909068))) = (Time 2275046527348909068, None)"
    by blast
  from rt tg have s: "FromPackedUint (Time 12)
      (fst (ToPackedUint (Time 2275046527348909068))) = (Time 2275046527348909068, None)"
    by blast
  from rt nz have "uint (fst (ToPackedUint (Time 2275046527348909068))) =
      (Year (coreTime (Time 2275046527348909068)) * 13
              + Month (coreTime (Time 2275046527348909068))) * 2 ^ 46
            + Day (coreTime (Time 2275046527348909068)) * 2 ^ 41
            + Hour (coreTime (Time 2275046527348909068)) * 2 ^ 36
            + Minute (coreTime (Time 2275046527348909068)) * 2 ^ 30
            + Second (coreTime (Time 2275046527348909068)) * 2 ^ 24
            + Microsecond (coreTime (Time 2275046527348909068))"
    by blast
  then have u: "uint (fst (ToPackedUint (Time 2275046527348909068))) = 1848611937630413376"
    by (simp only: v)
  from m y nz tg b s u show ?thesis
    by blast
qed

subsection \<open>Two-digit years\<close>

text \<open>
  C6. For every integer \<open>y\<close>, \<open>adjustYear y\<close> is \<open>2000 + y\<close> when \<open>0 \<le> y \<le> 69\<close>,
  \<open>1900 + y\<close> when \<open>70 \<le> y \<le> 99\<close>, and \<open>y\<close> itself for every other integer.
\<close>

theorem adjustYear_law:
  "(0 \<le> y \<and> y \<le> 69 \<longrightarrow> adjustYear y = 2000 + y) \<and>
   (70 \<le> y \<and> y \<le> 99 \<longrightarrow> adjustYear y = 1900 + y) \<and>
   (y < 0 \<or> 99 < y \<longrightarrow> adjustYear y = y)"
  by (auto simp add: adjustYear_def)

theorem adjustYear_law_witness:
  "adjustYear 69 = 2069 \<and> adjustYear 70 = 1970 \<and> adjustYear 100 = 100 \<and>
   adjustYear (- 1) = - 1"
  using adjustYear_law [of 69] adjustYear_law [of 70] adjustYear_law [of 100]
    adjustYear_law [of "- 1"]
  by simp

subsection \<open>Enum ordinals\<close>

lemma word_of_nat_length_le:
  assumes "length (elems :: string list) < 2 ^ 63"
  shows "(n > (word_of_nat (length elems) :: uint64)) = (unat n > length elems)"
proof -
  have "length elems < 2 ^ 64"
    using assms by (rule less_le_trans) simp
  then have "unat (word_of_nat (length elems) :: uint64) = length elems"
    by (simp add: unat_of_nat)
  then show ?thesis
    by (simp add: word_less_nat_alt)
qed

text \<open>
  C8. For every member list \<open>elems\<close> (a Go slice, so shorter than \<open>2 ^ 63\<close>) and
  number \<open>n\<close>: when \<open>1 \<le> n \<le> len(elems)\<close> the result is the enum with name
  \<open>elems[n-1]\<close> and value \<open>n\<close> and no error; when \<open>n = 0\<close> or \<open>n > len(elems)\<close> the
  result is the zero Enum with an error. In particular \<open>["a","b","c"], 2\<close> gives
  \<open>{"b", 2}\<close> and \<open>["a","b","c"], 0\<close> is an error.
\<close>

theorem ParseEnumValue_ordinal:
  assumes "length elems < 2 ^ 63"
  shows "(1 \<le> unat n \<and> unat n \<le> length elems \<longrightarrow>
            ParseEnumValue elems n = (\<lparr>Name = elems ! (unat n - 1), Value = n\<rparr>, None)) \<and>
         (n = 0 \<or> unat n > length elems \<longrightarrow>
            (\<exists>e. ParseEnumValue elems n = (zeroEnum, Some e))) \<and>
         ParseEnumValue [''a'', ''b'', ''c''] 2 = (\<lparr>Name = ''b'', Value = 2\<rparr>, None) \<and>
         (\<exists>e. ParseEnumValue [''a'', ''b'', ''c''] 0 = (zeroEnum, Some e))"
proof -
  have ok: "1 \<le> unat n \<and> unat n \<le> length elems \<longrightarrow>
      ParseEnumValue elems n = (\<lparr>Name = elems ! (unat n - 1), Value = n\<rparr>, None)"
    using word_of_nat_length_le [OF assms, of n]
    by (auto simp add: ParseEnumValue_def)
  have bad: "n = 0 \<or> unat n > length elems \<longrightarrow>
      (\<exists>e. ParseEnumValue elems n = (zeroEnum, Some e))"
    using word_of_nat_length_le [OF assms, of n]
    by (auto simp add: ParseEnumValue_def)
  have two: "ParseEnumValue [''a'', ''b'', ''c''] 2 = (\<lparr>Name = ''b'', Value = 2\<rparr>, None)"
    by (simp add: ParseEnumValue_def)
  have zero: "\<exists>e. ParseEnumValue [''a'', ''b'', ''c''] 0 = (zeroEnum, Some e)"
    by (simp add: ParseEnumValue_def)
  from ok bad two zero show ?thesis by blast
qed

theorem ParseEnumValue_ordinal_witness:
  "length [''x'', ''y''] < 2 ^ 63 \<and>
   ParseEnumValue [''x'', ''y''] 1 = (\<lparr>Name = ''x'', Value = 1\<rparr>, None) \<and>
   (\<exists>e. ParseEnumValue [''x'', ''y''] 3 = (zeroEnum, Some e))"
proof -
  have len: "length [''x'', ''y''] < 2 ^ 63" by simp
  from ParseEnumValue_ordinal [OF len, of 1] ParseEnumValue_ordinal [OF len, of 3] len
  show ?thesis by simp
qed

subsection \<open>Rounding a duration at its own fsp\<close>

text \<open>
  C10. The claim is stated for every Duration. \<open>RoundFrac\<close> passes its argument
  through \<open>CheckFsp\<close> before it compares it with \<open>d.Fsp\<close>, and Go does not restrict
  the exported field \<open>Fsp\<close>: a Duration of 1.5 seconds whose \<open>Fsp\<close> is the unspecified
  fsp -1, rounded at its own fsp, comes back as 2 seconds with fsp 0.
\<close>

theorem RoundFrac_unspecified_fsp_counterexample:
  "Duration_RoundFrac \<lparr>Duration = 1500000000, Fsp = - 1\<rparr>
     (Fsp \<lparr>Duration = 1500000000, Fsp = - 1\<rparr>) (Some UTC)
     = (\<lparr>Duration = 2000000000, Fsp = 0\<rparr>, None) \<and>
   Duration_RoundFrac \<lparr>Duration = 1500000000, Fsp = - 1\<rparr>
     (Fsp \<lparr>Duration = 1500000000, Fsp = - 1\<rparr>) (Some UTC)
     \<noteq> (\<lparr>Duration = 1500000000, Fsp = - 1\<rparr>, None)"
  by (simp add: Duration_RoundFrac_def CheckFsp_def UnspecifiedFsp_def DefaultFsp_def
      MinFsp_def MaxFsp_def Date_def daysSinceYear1_def daysBefore_def isLeap_def
      unixToInternal_def GoTime_Add_def GoTime_Round_def GoTime_Sub_def Nanosecond_def
      MinInt64_def MaxInt64_def UTC_def Let_def)

text \<open>
  C10, amended. For every Duration \<open>d\<close> whose fsp lies in the range 0 to 6 of the data
  model, \<open>d.RoundFrac(fsp, loc)\<close> with \<open>fsp\<close> equal to \<open>d.Fsp\<close> returns \<open>d\<close> unchanged
  with no error, whatever nanosecond value \<open>d\<close> stores and whatever the location: no
  rounding is performed.
\<close>

theorem RoundFrac_own_fsp:
  assumes "MinFsp \<le> Fsp d" and "Fsp d \<le> MaxFsp"
  shows "Duration_RoundFrac d (Fsp d) loc = (d, None)"
  using assms
  by (simp add: Duration_RoundFrac_def CheckFsp_def UnspecifiedFsp_def MinFsp_def MaxFsp_def)

theorem RoundFrac_own_fsp_witness:
  "MinFsp \<le> Fsp \<lparr>Duration = 36610999999999, Fsp = 0\<rparr> \<and>
   Fsp \<lparr>Duration = 36610999999999, Fsp = 0\<rparr> \<le> MaxFsp \<and>
   Duration_RoundFrac \<lparr>Duration = 36610999999999, Fsp = 0\<rparr> 0 (Some UTC)
     = (\<lparr>Duration = 36610999999999, Fsp = 0\<rparr>, None)"
proof -
  have lo: "MinFsp \<le> Fsp \<lparr>Duration = 36610999999999, Fsp = 0\<rparr>"
    by (simp add: MinFsp_def)
  have hi: "Fsp \<lparr>Duration = 36610999999999, Fsp = 0\<rparr> \<le> MaxFsp"
    by (simp add: MaxFsp_def)
  from RoundFrac_own_fsp [OF lo hi, of "Some UTC"] lo hi show ?thesis by simp
qed

subsection \<open>Truncation policy\<close>

text \<open>
  The flags are consulted on one path only: when the cause of the error is a coded
  error of the errors library (a \<open>*errors.Error\<close>) with one of the ten listed codes,
  among them 1265 (data truncated) and 1292 (truncated wrong value). On that path the
  error is dropped under \<open>ignoreTruncateErr\<close>, turned into a warning under
  \<open>truncateAsWarning\<close>, and returned otherwise.
\<close>

lemma HandleTruncate_coded_error:
  assumes "Cause e = NormErr code"
  shows "HandleTruncate c None = (None, c) \<and>
    (code \<in> {ErrTruncatedWrongValue, ErrDataTooLong, ErrTruncatedWrongValueForField,
              ErrWarnDataOutOfRange, ErrDataOutOfRange, 1367, ErrWrongValueForType,
              ErrDatetimeFunctionOverflow, WarnDataTruncated, 1292} \<longrightarrow>
       HandleTruncate c (Some e) =
         (if IgnoreTruncateErr (Flags c) then (None, c)
          else if ContextFlags_TruncateAsWarning (Flags c)
               then (None, AppendWarning c (NormErr code))
          else (Some (NormErr code), c))) \<and>
    (code \<notin> {ErrTruncatedWrongValue, ErrDataTooLong, ErrTruncatedWrongValueForField,
              ErrWarnDataOutOfRange, ErrDataOutOfRange, 1367, ErrWrongValueForType,
              ErrDatetimeFunctionOverflow, WarnDataTruncated, 1292} \<longrightarrow>
       HandleTruncate c (Some e) = (Some (NormErr code), c))"
  using assms by (auto simp add: HandleTruncate_def)

text \<open>
  C3. The claim says that a truncation-class error is returned, dropped or turned
  into a warning according to the flags \<open>ignoreTruncateErr\<close> and \<open>truncateAsWarning\<close>,
  and that Overflow and MalformedLiteral errors are always returned. The errors of
  this package are the constants built by \<open>NewStd\<close> (\<open>*TError\<close>), the values that
  \<open>GenWithStackByArgs\<close>, \<open>FastGenByArgs\<close> and \<open>GenWithStack\<close> build from them, and
  wrappings of these. None of them is a \<open>*errors.Error\<close>, so the type assertion of
  \<open>HandleTruncate\<close> fails and the cause is returned with the context unchanged,
  whatever the flags: this holds for the overflow error, as the claim says, but also
  for the truncation errors. With \<open>truncateAsWarning\<close> set, the error that the integer
  conversion hands over for the string \<open>1a\<close> (code 1292) is returned and no warning
  is recorded; with \<open>ignoreTruncateErr\<close> set, the wrapped \<open>ErrTruncated\<close> (code 1265) is
  returned and not dropped.
\<close>

theorem HandleTruncate_returns_package_errors:
  "HandleTruncate c (Some (TError code)) = (Some (TError code), c) \<and>
   HandleTruncate c (Some (GenErr code args)) = (Some (GenErr code args), c) \<and>
   HandleTruncate c (Some (Wrap (TError code) msg)) = (Some (TError code), c) \<and>
   HandleTruncate c (Some (Wrap (GenErr code args) msg)) = (Some (GenErr code args), c) \<and>
   HandleTruncate c (Some (overflow v tp)) = (Some (overflow v tp), c) \<and>
   HandleTruncate
     \<lparr>IgnoreTruncate = False, TruncateAsWarning = True,
      flags = \<lparr>InInsertStmt = False, InUpdateStmt = False, InDeleteStmt = False,
               InSelectStmt = False, ignoreZeroInDate = False,
               DividedByZeroAsWarning = False, ignoreTruncateErr = False,
               truncateAsWarning = True\<rparr>,
      warnings = []\<rparr>
     (Some (GenWithStackByArgs ErrTruncatedWrongVal [S ''INTEGER'', S ''1a'']))
   = (Some (GenErr ErrTruncatedWrongValue [S ''INTEGER'', S ''1a'']),
      \<lparr>IgnoreTruncate = False, TruncateAsWarning = True,
       flags = \<lparr>InInsertStmt = False, InUpdateStmt = False, InDeleteStmt = False,
                InSelectStmt = False, ignoreZeroInDate = False,
                DividedByZeroAsWarning = False, ignoreTruncateErr = False,
                truncateAsWarning = True\<rparr>,
       warnings = []\<rparr>) \<and>
   HandleTruncate
     \<lparr>IgnoreTruncate = True, TruncateAsWarning = False,
      flags = \<lparr>InInsertStmt = False, InUpdateStmt = False, InDeleteStmt = False,
               InSelectStmt = False, ignoreZeroInDate = False,
               DividedByZeroAsWarning = False, ignoreTruncateErr = True,
               truncateAsWarning = False\<rparr>,
      warnings = []\<rparr>
     (Some (Wrap ErrTruncated []))
   = (Some (TError WarnDataTruncated),
      \<lparr>IgnoreTruncate = True, TruncateAsWarning = False,
       flags = \<lparr>InInsertStmt = False, InUpdateStmt = False, InDeleteStmt = False,
                InSelectStmt = False, ignoreZeroInDate = False,
                DividedByZeroAsWarning = False, ignoreTruncateErr = True,
                truncateAsWarning = False\<rparr>,
       warnings = []\<rparr>)"
  by (simp add: HandleTruncate_def overflow_def ErrTruncatedWrongVal_def ErrTruncated_def
      WarnDataTruncated_def)

subsection \<open>Decimal precision at the top of the unsigned range\<close>

lemma formatNat_max: "formatNat 18446744073709551615 = ''18446744073709551615''"
  by (simp add: formatNat.simps)

lemma formatNat_max_pred: "formatNat 18446744073709551614 = ''18446744073709551614''"
  by (simp add: formatNat.simps)

text \<open>
  C5. The decimal written \<open>18446744073709551615\<close>, converted by \<open>ConvertDecimalToUint\<close>
  with upper bound \<open>2 ^ 64 - 1\<close> and any type tag, returns exactly
  18446744073709551615 with no error. The conversion works on the digit string; the
  two neighbouring inputs show the rest of the rule: a first fractional digit of 5
  or more rounds up (\<open>18446744073709551614.5\<close> gives the same value), and an integer
  part above the bound is reported as overflow with the bound as value.
\<close>

theorem ConvertDecimalToUint_max_exact:
  "ConvertDecimalToUint
     \<lparr>negative = False, intDigits = ''18446744073709551615'', fracDigits = []\<rparr>
     18446744073709551615 tp
     = Return (18446744073709551615, None) \<and>
   ConvertDecimalToUint
     \<lparr>negative = False, intDigits = ''18446744073709551614'', fracDigits = ''5''\<rparr>
     18446744073709551615 tp
     = Return (18446744073709551615, None) \<and>
   ConvertDecimalToUint
     \<lparr>negative = False, intDigits = ''18446744073709551616'', fracDigits = []\<rparr>
     18446744073709551615 tp
     = Return (18446744073709551615, Some (overflow (S ''18446744073709551616'') tp))"
proof (intro conjI)
  show "ConvertDecimalToUint
     \<lparr>negative = False, intDigits = ''18446744073709551615'', fracDigits = []\<rparr>
     18446744073709551615 tp
     = Return (18446744073709551615, None)"
    by (simp add: ConvertDecimalToUint_def ToString_def convertDecimalStrToUint_def
        convertScientificNotation_def FormatUint_def ParseUint_def isDigit_def digitVal_def
        formatNat_max)
  show "ConvertDecimalToUint
     \<lparr>negative = False, intDigits = ''18446744073709551614'', fracDigits = ''5''\<rparr>
     18446744073709551615 tp
     = Return (18446744073709551615, None)"
    by (simp add: ConvertDecimalToUint_def ToString_def convertDecimalStrToUint_def
        convertScientificNotation_def FormatUint_def ParseUint_def isDigit_def digitVal_def
        formatNat_max_pred)
  show "ConvertDecimalToUint
     \<lparr>negative = False, intDigits = ''18446744073709551616'', fracDigits = []\<rparr>
     18446744073709551615 tp
     = Return (18446744073709551615, Some (overflow (S ''18446744073709551616'') tp))"
    by (simp add: ConvertDecimalToUint_def ToString_def convertDecimalStrToUint_def
        convertScientificNotation_def FormatUint_def ParseUint_def isDigit_def digitVal_def
        formatNat_max)
qed

subsection \<open>Parsing durations\<close>

lemmas scan_defs = Char_def Space_def Space0_def Number_def Digit_def AnyPunct_def Atoi_def
  ParseInt_def isDigit_def digitVal_def TrimSpace_def isSpace_def MaxInt64_def MinInt64_def

lemmas dur_defs = matchDuration_def matchHMS_def matchDayHHMMSS_def matchHHMMSSDelimited_def
  matchHHMMSSCompact_def matchColon_def matchFrac_def isNegativeDuration_def checkHHMMSS_def
  hhmmssAddOverflow_def TruncateOverflowMySQLTime_def CheckFsp_def ParseFrac_def
  UnspecifiedFsp_def DefaultFsp_def MinFsp_def MaxFsp_def TimeMaxHour_def

lemma matchDuration_fraction:
  "matchDuration ''10:10:10.999999'' 0 =
     (ZeroDuration, True,
      Some (GenWithStackByArgs ErrTruncatedWrongVal [S ''time'', S ''10:10:10.999999'']))"
  by (simp add: dur_defs scan_defs)

lemma no_fallback_fraction: "canFallbackToDateTime ''10:10:10.999999'' = False"
  by (simp add: canFallbackToDateTime_def scan_defs)

text \<open>
  C7. The claim says that \<open>ParseDuration\<close> on \<open>10:10:10.999999\<close> with fsp 0 yields
  10:10:11 with no error. \<open>matchFrac\<close> reads the digits after the point with
  \<open>Digit(rest, 0)\<close>, and \<open>Digit(s, n)\<close> of this package takes exactly \<open>n\<close> digits:
  with \<open>n = 0\<close> it takes none and leaves \<open>999999\<close> unread. The literal has 15
  characters, so the unread rest makes \<open>matchDuration\<close> reject it; it does not start
  like a datetime, so there is no fallback, and \<open>ParseDuration\<close> returns the zero
  duration, the null flag and a truncated-wrong-value error, for every context. The
  parts that would round are in place: given the six digits, \<open>ParseFrac\<close> at fsp 0
  reports the carry, and \<open>hhmmssAddOverflow\<close> adds it to the seconds with carries at
  60 into minutes and hours.
\<close>

theorem ParseDuration_fraction_rejected:
  "ParseDuration ctx ''10:10:10.999999'' 0 =
     (ZeroDuration, True,
      Some (GenErr ErrTruncatedWrongValue [S ''time'', S ''10:10:10.999999'']), ctx) \<and>
   Digit ''999999'' 0 = Some ([], ''999999'') \<and>
   matchFrac ''.999999'' 0 = (False, 0, ''999999'', None) \<and>
   ParseFrac ''999999'' 0 = (0, True, None) \<and>
   hhmmssAddOverflow [10, 10, 10] = [10, 10, 11] \<and>
   hhmmssAddOverflow [10, 10, 59] = [10, 11, 0] \<and>
   hhmmssAddOverflow [10, 59, 59] = [11, 0, 0]"
proof (intro conjI)
  show "ParseDuration ctx ''10:10:10.999999'' 0 =
     (ZeroDuration, True,
      Some (GenErr ErrTruncatedWrongValue [S ''time'', S ''10:10:10.999999'']), ctx)"
    by (simp add: ParseDuration_def matchDuration_fraction no_fallback_fraction TrimSpace_def
        isSpace_def ErrTruncatedWrongVal_def)
  show "Digit ''999999'' 0 = Some ([], ''999999'')"
    by (simp add: Digit_def)
  show "matchFrac ''.999999'' 0 = (False, 0, ''999999'', None)"
    by (simp add: matchFrac_def Char_def Digit_def ParseFrac_def)
  show "ParseFrac ''999999'' 0 = (0, True, None)"
    by (simp add: ParseFrac_def CheckFsp_def UnspecifiedFsp_def MinFsp_def MaxFsp_def
        ParseInt_def isDigit_def digitVal_def MaxInt64_def MinInt64_def)
  show "hhmmssAddOverflow [10, 10, 10] = [10, 10, 11]"
    by (simp add: hhmmssAddOverflow_def wrap64_def)
  show "hhmmssAddOverflow [10, 10, 59] = [10, 11, 0]"
    by (simp add: hhmmssAddOverflow_def wrap64_def)
  show "hhmmssAddOverflow [10, 59, 59] = [11, 0, 0]"
    by (simp add: hhmmssAddOverflow_def wrap64_def)
qed

subsection \<open>The hour boundary of durations\<close>

lemma CheckFsp_valid: "MinFsp \<le> fsp \<Longrightarrow> fsp \<le> MaxFsp \<Longrightarrow> CheckFsp fsp = (fsp, None)"
  by (simp add: CheckFsp_def MinFsp_def MaxFsp_def UnspecifiedFsp_def)

lemma matchDuration_min:
  assumes "CheckFsp fsp = (fsp, None)"
  shows "matchDuration ''-838:59:59'' fsp = (\<lparr>Duration = MinTime, Fsp = fsp\<rparr>, False, None)"
  using assms
  by (simp add: matchDuration_def matchHMS_def matchDayHHMMSS_def matchHHMMSSDelimited_def
      matchColon_def matchFrac_def isNegativeDuration_def checkHHMMSS_def
      TruncateOverflowMySQLTime_def TimeMaxHour_def scan_defs wrap64_def
      MinTime_def MaxTime_def Hour_ns_def Minute_ns_def Second_ns_def Millisecond_def
      Microsecond_ns_def Nanosecond_def)

lemma matchDuration_839:
  assumes "CheckFsp fsp = (fsp, None)"
  shows "matchDuration ''839:00:00'' fsp = (\<lparr>Duration = MaxTime, Fsp = fsp\<rparr>, False,
     Some (GenWithStackByArgs ErrTruncatedWrongVal [S ''time'', S ''839:00:00'']))"
  using assms
  by (simp add: matchDuration_def matchHMS_def matchDayHHMMSS_def matchHHMMSSDelimited_def
      matchColon_def matchFrac_def isNegativeDuration_def checkHHMMSS_def
      TimeMaxHour_def scan_defs)

lemma no_fallback_839: "canFallbackToDateTime ''839:00:00'' = False"
  by (simp add: canFallbackToDateTime_def scan_defs)

lemma ParseDuration_min:
  assumes "CheckFsp fsp = (fsp, None)"
  shows "ParseDuration ctx ''-838:59:59'' fsp = (\<lparr>Duration = MinTime, Fsp = fsp\<rparr>, False, None, ctx)"
  by (simp add: ParseDuration_def TrimSpace_def isSpace_def matchDuration_min [OF assms])

lemma ParseDuration_839:
  assumes "CheckFsp fsp = (fsp, None)"
  shows "ParseDuration ctx ''839:00:00'' fsp = (\<lparr>Duration = MaxTime, Fsp = fsp\<rparr>, False,
     Some (GenWithStackByArgs ErrTruncatedWrongVal [S ''time'', S ''839:00:00'']), ctx)"
  by (simp add: ParseDuration_def TrimSpace_def isSpace_def matchDuration_839 [OF assms]
      no_fallback_839)

lemma matchHMS_Nil: "matchHMS [] = None"
  by (simp add: matchHMS_def matchDayHHMMSS_def matchHHMMSSDelimited_def
      matchHHMMSSCompact_def Number_def)

lemma digit_not_sep:
  assumes "isDigit c"
  shows "c \<noteq> CHR ''-''" "c \<noteq> CHR ''+''" "c \<noteq> CHR '' ''" "c \<noteq> CHR '':''"
  using assms by (auto simp add: isDigit_def)

lemma AnyPunct_Cons:
  assumes "AnyPunct s = Some r"
  shows "\<exists>p. s = p # r \<and> \<not> isDigit p \<and> p \<noteq> CHR '' ''"
proof (cases s)
  case Nil
  with assms show ?thesis by (simp add: AnyPunct_def)
next
  case (Cons p ps)
  with assms show ?thesis
    by (auto simp add: AnyPunct_def isDigit_def Let_def split: if_splits)
qed

lemma Digit1_Cons:
  assumes "Digit s 1 = Some (ds, r)"
  shows "\<exists>d. s = d # r \<and> ds = [d] \<and> isDigit d"
proof (cases s)
  case Nil
  with assms show ?thesis by (simp add: Digit_def)
next
  case (Cons d r')
  with assms show ?thesis
    by (auto simp add: Digit_def split: if_splits)
qed

lemma fallback_shape:
  assumes "canFallbackToDateTime s"
  shows "\<exists>d0 p1 d2 p3 d4 c5 r. s = d0 # p1 # d2 # p3 # d4 # c5 # r \<and>
           isDigit d0 \<and> \<not> isDigit p1 \<and> p1 \<noteq> CHR '' '' \<and> isDigit d2 \<and>
           \<not> isDigit p3 \<and> p3 \<noteq> CHR '' '' \<and> isDigit d4 \<and>
           (c5 = CHR '' '' \<or> c5 = CHR ''T'')"
proof -
  from assms obtain ds r0 where a0: "Digit s 1 = Some (ds, r0)"
    by (auto simp add: canFallbackToDateTime_def split: option.splits)
  then obtain d0 where s0: "s = d0 # r0" "ds = [d0]" "isDigit d0"
    using Digit1_Cons by blast
  from assms a0 s0 obtain r1 where a1: "AnyPunct r0 = Some r1"
    by (auto simp add: canFallbackToDateTime_def split: option.splits)
  then obtain p1 where s1: "r0 = p1 # r1" "\<not> isDigit p1" "p1 \<noteq> CHR '' ''"
    using AnyPunct_Cons by blast
  from assms a0 s0(2) a1 obtain ds2 r2 where a2: "Digit r1 1 = Some (ds2, r2)"
    by (auto simp add: canFallbackToDateTime_def split: option.splits)
  then obtain d2 where s2: "r1 = d2 # r2" "isDigit d2"
    using Digit1_Cons by blast
  from assms a0 s0(2) a1 a2 obtain r3 where a3: "AnyPunct r2 = Some r3"
    by (auto simp add: canFallbackToDateTime_def split: option.splits)
  then obtain p3 where s3: "r2 = p3 # r3" "\<not> isDigit p3" "p3 \<noteq> CHR '' ''"
    using AnyPunct_Cons by blast
  from assms a0 s0(2) a1 a2 a3 obtain ds4 r4 where a4: "Digit r3 1 = Some (ds4, r4)"
    by (auto simp add: canFallbackToDateTime_def split: option.splits)
  then obtain d4 where s4: "r3 = d4 # r4" "isDigit d4"
    using Digit1_Cons by blast
  from assms a0 s0(2) a1 a2 a3 a4 have "r4 \<noteq> [] \<and> (hd r4 = CHR '' '' \<or> hd r4 = CHR ''T'')"
    by (simp add: canFallbackToDateTime_def)
  then obtain c5 r where s5: "r4 = c5 # r" "c5 = CHR '' '' \<or> c5 = CHR ''T''"
    by (cases r4) auto
  from s0 s1 s2 s3 s4 s5 show ?thesis by blast
qed

lemma digitVal_le: "isDigit d \<Longrightarrow> int (digitVal d) \<le> 9"
  by (simp add: isDigit_def digitVal_def)

lemma Number_one_digit:
  assumes "isDigit d" "\<not> isDigit c"
  shows "Number (d # c # r) = (int (digitVal d), c # r, None)"
  using assms digit_not_sep [OF assms(1)] digitVal_le [OF assms(1)]
  by (simp add: Number_def Atoi_def ParseInt_def MaxInt64_def MinInt64_def Let_def)

lemma fallback_hour:
  assumes "canFallbackToDateTime s"
    and "isNegativeDuration s = (neg, body)"
    and "matchHMS (Space0 body) = Some (hms, rest)"
  shows "0 \<le> hms ! 0 \<and> hms ! 0 \<le> 9 \<and> 0 \<le> hms ! 1 \<and> hms ! 1 \<le> 9 \<and>
         0 \<le> hms ! 2 \<and> hms ! 2 \<le> 9"
proof -
  from fallback_shape [OF assms(1)] obtain d0 p1 d2 p3 d4 c5 r where
    s: "s = d0 # p1 # d2 # p3 # d4 # c5 # r" and
    d0: "isDigit d0" and p1: "\<not> isDigit p1" "p1 \<noteq> CHR '' ''" and d2: "isDigit d2" and
    p3: "\<not> isDigit p3" "p3 \<noteq> CHR '' ''" and d4: "isDigit d4" and
    c5: "c5 = CHR '' '' \<or> c5 = CHR ''T''"
    by blast
  have c5d: "\<not> isDigit c5"
    using c5 by (auto simp add: isDigit_def)
  have body: "body = s"
    using assms(2) digit_not_sep [OF d0] by (simp add: isNegativeDuration_def Char_def s)
  have sp: "Space0 body = s"
    using digit_not_sep [OF d0] by (simp add: body Space0_def s)
  note n0 = Number_one_digit [OF d0 p1(1), of "d2 # p3 # d4 # c5 # r"]
  note n2 = Number_one_digit [OF d2 p3(1), of "d4 # c5 # r"]
  note n4 = Number_one_digit [OF d4 c5d, of r]
  note b0 = digitVal_le [OF d0]
  note b2 = digitVal_le [OF d2]
  note b4 = digitVal_le [OF d4]
  have day: "matchDayHHMMSS s = None"
    using p1 by (simp add: matchDayHHMMSS_def s n0 Space_def)
  have compact: "matchHHMMSSCompact s = Some ([0, 0, int (digitVal d0)], p1 # d2 # p3 # d4 # c5 # r)"
    using b0 by (simp add: matchHHMMSSCompact_def s n0)
  have mc1: "matchColon (p1 # d2 # p3 # d4 # c5 # r)
      = (if p1 = CHR '':'' then Some (d2 # p3 # d4 # c5 # r) else None)"
    using p1(2) digit_not_sep [OF d2] by (simp add: matchColon_def Space0_def Char_def)
  have mc3: "matchColon (p3 # d4 # c5 # r)
      = (if p3 = CHR '':'' then Some (d4 # c5 # r) else None)"
    using p3(2) digit_not_sep [OF d4] by (simp add: matchColon_def Space0_def Char_def)
  have del: "matchHHMMSSDelimited s True =
      (if p1 = CHR '':''
       then (if p3 = CHR '':''
             then Some ([int (digitVal d0), int (digitVal d2), int (digitVal d4)], c5 # r)
             else Some ([int (digitVal d0), int (digitVal d2), 0], p3 # d4 # c5 # r))
       else None)"
    by (simp add: matchHHMMSSDelimited_def s n0 n2 n4 mc1 mc3)
  have m: "matchHMS s = Some (hms, rest)"
    using assms(3) sp by simp
  then have "hms = [0, 0, int (digitVal d0)] \<or>
      hms = [int (digitVal d0), int (digitVal d2), int (digitVal d4)] \<or>
      hms = [int (digitVal d0), int (digitVal d2), 0]"
    unfolding matchHMS_def day compact del by (simp split: if_splits)
  with b0 b2 b4 show ?thesis by auto
qed

lemma fallback_hour_carry:
  assumes "canFallbackToDateTime s"
    and "isNegativeDuration s = (neg, body)"
    and "matchHMS (Space0 body) = Some (hms, rest)"
  shows "(if carry then hhmmssAddOverflow hms else hms) ! 0 \<le> 9"
proof -
  note b = fallback_hour [OF assms]
  from b have "wrap64 (hms ! 2 + 1) = hms ! 2 + 1"
    by (simp add: wrap64_def)
  with b have "hhmmssAddOverflow hms = [hms ! 0, hms ! 1, hms ! 2 + 1]"
    by (simp add: hhmmssAddOverflow_def)
  with b show ?thesis by simp
qed

lemma matchDuration_clamp:
  assumes fsp: "CheckFsp fsp = (fsp, None)"
    and neg: "isNegativeDuration str = (neg, body)"
    and hms: "matchHMS (Space0 body) = Some (hms, rest)"
    and frac: "matchFrac (Space0 rest) fsp = (carry, frac, rest', None)"
    and short: "rest' = [] \<or> length (Space0 body) < 12"
    and ok: "checkHHMMSS (if carry then hhmmssAddOverflow hms else hms)"
    and big: "(if carry then hhmmssAddOverflow hms else hms) ! 0 > TimeMaxHour"
  shows "matchDuration str fsp =
           (\<lparr>Duration = (if neg then MinTime else MaxTime), Fsp = fsp\<rparr>, False,
            Some (GenWithStackByArgs ErrTruncatedWrongVal [S ''time'', S str]))"
proof -
  have ne: "str \<noteq> []"
  proof
    assume "str = []"
    with neg have "body = []"
      by (simp add: isNegativeDuration_def Char_def)
    with hms show False
      by (simp add: Space0_def matchHMS_Nil)
  qed
  have guard: "\<not> (0 < length rest' \<and> 12 \<le> length (Space0 body))"
    using short by auto
  show ?thesis
    unfolding matchDuration_def
    using ne guard ok big
    by (simp add: fsp neg hms frac Let_def)
qed

lemma ParseDuration_clamp:
  assumes fsp: "CheckFsp fsp = (fsp, None)"
    and neg: "isNegativeDuration (TrimSpace str) = (neg, body)"
    and hms: "matchHMS (Space0 body) = Some (hms, rest)"
    and frac: "matchFrac (Space0 rest) fsp = (carry, frac, rest', None)"
    and short: "rest' = [] \<or> length (Space0 body) < 12"
    and ok: "checkHHMMSS (if carry then hhmmssAddOverflow hms else hms)"
    and big: "(if carry then hhmmssAddOverflow hms else hms) ! 0 > TimeMaxHour"
  shows "ParseDuration ctx str fsp =
           (\<lparr>Duration = (if neg then MinTime else MaxTime), Fsp = fsp\<rparr>, False,
            Some (GenWithStackByArgs ErrTruncatedWrongVal [S ''time'', S str]), ctx)"
proof -
  have nofb: "\<not> canFallbackToDateTime (TrimSpace str)"
  proof
    assume "canFallbackToDateTime (TrimSpace str)"
    from fallback_hour_carry [OF this neg hms, of carry] big show False
      by (simp add: TimeMaxHour_def)
  qed
  show ?thesis
    unfolding ParseDuration_def
    by (simp add: matchDuration_clamp [OF fsp neg hms frac short ok big] nofb Let_def)
qed

text \<open>
  C4. For every valid fsp (0 to 6) and every context: \<open>ParseDuration\<close> on \<open>-838:59:59\<close>
  returns exactly the minimum duration, minus 838 hours 59 minutes 59 seconds, not
  null and with no error; on \<open>839:00:00\<close> it returns the maximum duration, 838 hours
  59 minutes 59 seconds, not null, together with a truncated-wrong-value error. In
  general, for every literal that the matcher accepts (after trimming and the sign,
  one of the three time formats matches, the fraction matches without error and
  leaves nothing unread in a literal of 12 characters or more, minute and second are
  below 60), an hour above 838 after the carry gives the minimum duration for a
  negative literal and the maximum duration otherwise, not null, with a
  truncated-wrong-value error naming the literal; the datetime fallback never applies
  to such a literal.
\<close>

theorem ParseDuration_hour_boundary:
  assumes "MinFsp \<le> fsp" and "fsp \<le> MaxFsp"
  shows "ParseDuration ctx ''-838:59:59'' fsp
           = (\<lparr>Duration = MinTime, Fsp = fsp\<rparr>, False, None, ctx) \<and>
         MinTime = - ((838 * 3600 + 59 * 60 + 59) * 1000000000) \<and>
         ParseDuration ctx ''839:00:00'' fsp
           = (\<lparr>Duration = MaxTime, Fsp = fsp\<rparr>, False,
              Some (GenErr ErrTruncatedWrongValue [S ''time'', S ''839:00:00'']), ctx) \<and>
         MaxTime = (838 * 3600 + 59 * 60 + 59) * 1000000000 \<and>
         (isNegativeDuration (TrimSpace str) = (neg, body) \<and>
          matchHMS (Space0 body) = Some (hms, rest) \<and>
          matchFrac (Space0 rest) fsp = (carry, frac, rest', None) \<and>
          (rest' = [] \<or> length (Space0 body) < 12) \<and>
          checkHHMMSS (if carry then hhmmssAddOverflow hms else hms) \<and>
          (if carry then hhmmssAddOverflow hms else hms) ! 0 > 838
          \<longrightarrow> ParseDuration ctx str fsp
                = (\<lparr>Duration = (if neg then MinTime else MaxTime), Fsp = fsp\<rparr>, False,
                   Some (GenErr ErrTruncatedWrongValue [S ''time'', S str]), ctx))"
proof -
  note fsp = CheckFsp_valid [OF assms]
  have a: "ParseDuration ctx ''-838:59:59'' fsp
           = (\<lparr>Duration = MinTime, Fsp = fsp\<rparr>, False, None, ctx)"
    by (rule ParseDuration_min [OF fsp])
  have b: "MinTime = - ((838 * 3600 + 59 * 60 + 59) * 1000000000)"
    by (simp add: MinTime_def Hour_ns_def Minute_ns_def Second_ns_def Millisecond_def
        Microsecond_ns_def Nanosecond_def)
  have c: "ParseDuration ctx ''839:00:00'' fsp
           = (\<lparr>Duration = MaxTime, Fsp = fsp\<rparr>, False,
              Some (GenErr ErrTruncatedWrongValue [S ''time'', S ''839:00:00'']), ctx)"
    using ParseDuration_839 [OF fsp, of ctx] by (simp add: ErrTruncatedWrongVal_def)
  have d: "MaxTime = (838 * 3600 + 59 * 60 + 59) * 1000000000"
    by (simp add: MaxTime_def Hour_ns_def Minute_ns_def Second_ns_def Millisecond_def
        Microsecond_ns_def Nanosecond_def)
  have e: "isNegativeDuration (TrimSpace str) = (neg, body) \<and>
          matchHMS (Space0 body) = Some (hms, rest) \<and>
          matchFrac (Space0 rest) fsp = (carry, frac, rest', None) \<and>
          (rest' = [] \<or> length (Space0 body) < 12) \<and>
          checkHHMMSS (if carry then hhmmssAddOverflow hms else hms) \<and>
          (if carry then hhmmssAddOverflow hms else hms) ! 0 > 838
          \<longrightarrow> ParseDuration ctx str fsp
                = (\<lparr>Duration = (if neg then MinTime else MaxTime), Fsp = fsp\<rparr>, False,
                   Some (GenErr ErrTruncatedWrongValue [S ''time'', S str]), ctx)"
  proof (intro impI, elim conjE)
    assume h: "isNegativeDuration (TrimSpace str) = (neg, body)"
      "matchHMS (Space0 body) = Some (hms, rest)"
      "matchFrac (Space0 rest) fsp = (carry, frac, rest', None)"
      "rest' = [] \<or> length (Space0 body) < 12"
      "checkHHMMSS (if carry then hhmmssAddOverflow hms else hms)"
      "(if carry then hhmmssAddOverflow hms else hms) ! 0 > 838"
    from h(6) have big: "(if carry then hhmmssAddOverflow hms else hms) ! 0 > TimeMaxHour"
      by (simp add: TimeMaxHour_def)
    show "ParseDuration ctx str fsp
                = (\<lparr>Duration = (if neg then MinTime else MaxTime), Fsp = fsp\<rparr>, False,
                   Some (GenErr ErrTruncatedWrongValue [S ''time'', S str]), ctx)"
      using ParseDuration_clamp [OF fsp h(1) h(2) h(3) h(4) h(5) big, of ctx]
      by (simp add: ErrTruncatedWrongVal_def)
  qed
  from a b c d e show ?thesis by blast
qed

text \<open>
  The literal \<open>-35 00:00:00\<close> is 35 days, that is 840 hours, with a minus sign.
\<close>

theorem ParseDuration_hour_boundary_witness:
  "MinFsp \<le> (3::int) \<and> (3::int) \<le> MaxFsp \<and>
   isNegativeDuration (TrimSpace ''-35 00:00:00'') = (True, ''35 00:00:00'') \<and>
   matchHMS (Space0 ''35 00:00:00'') = Some ([840, 0, 0], []) \<and>
   matchFrac (Space0 []) 3 = (False, 0, [], None) \<and>
   checkHHMMSS [840, 0, 0] \<and>
   ParseDuration
     \<lparr>IgnoreTruncate = False, TruncateAsWarning = False,
      flags = \<lparr>InInsertStmt = False, InUpdateStmt = False, InDeleteStmt = False,
               InSelectStmt = False, ignoreZeroInDate = False,
               DividedByZeroAsWarning = False, ignoreTruncateErr = False,
               truncateAsWarning = False\<rparr>,
      warnings = []\<rparr> ''-35 00:00:00'' 3
   = (\<lparr>Duration = - 3020399000000000, Fsp = 3\<rparr>, False,
      Some (GenErr ErrTruncatedWrongValue [S ''time'', S ''-35 00:00:00'']),
      \<lparr>IgnoreTruncate = False, TruncateAsWarning = False,
       flags = \<lparr>InInsertStmt = False, InUpdateStmt = False, InDeleteStmt = False,
                InSelectStmt = False, ignoreZeroInDate = False,
                DividedByZeroAsWarning = False, ignoreTruncateErr = False,
                truncateAsWarning = False\<rparr>,
       warnings = []\<rparr>) \<and>
   ParseDuration
     \<lparr>IgnoreTruncate = False, TruncateAsWarning = False,
      flags = \<lparr>InInsertStmt = False, InUpdateStmt = False, InDeleteStmt = False,
               InSelectStmt = False, ignoreZeroInDate = False,
               DividedByZeroAsWarning = False, ignoreTruncateErr = False,
               truncateAsWarning = False\<rparr>,
      warnings = []\<rparr> ''-838:59:59'' 3
   = (\<lparr>Duration = - 3020399000000000, Fsp = 3\<rparr>, False, None,
      \<lparr>IgnoreTruncate = False, TruncateAsWarning = False,
       flags = \<lparr>InInsertStmt = False, InUpdateStmt = False, InDeleteStmt = False,
                InSelectStmt = False, ignoreZeroInDate = False,
                DividedByZeroAsWarning = False, ignoreTruncateErr = False,
                truncateAsWarning = False\<rparr>,
       warnings = []\<rparr>)"
proof -
  have lo: "MinFsp \<le> (3::int)" by (simp add: MinFsp_def)
  have hi: "(3::int) \<le> MaxFsp" by (simp add: MaxFsp_def)
  have h1: "isNegativeDuration (TrimSpace ''-35 00:00:00'') = (True, ''35 00:00:00'')"
    by (simp add: isNegativeDuration_def TrimSpace_def isSpace_def Char_def)
  have h2: "matchHMS (Space0 ''35 00:00:00'') = Some ([840, 0, 0], [])"
    by (simp add: matchHMS_def matchDayHHMMSS_def matchHHMMSSDelimited_def matchColon_def
        scan_defs wrap64_def)
  have h3: "matchFrac (Space0 []) 3 = (False, 0, [], None)"
    by (simp add: matchFrac_def Space0_def Char_def)
  have h5: "checkHHMMSS [840, 0, 0]"
    by (simp add: checkHHMMSS_def)
  let ?C = "\<lparr>IgnoreTruncate = False, TruncateAsWarning = False,
      flags = \<lparr>InInsertStmt = False, InUpdateStmt = False, InDeleteStmt = False,
               InSelectStmt = False, ignoreZeroInDate = False,
               DividedByZeroAsWarning = False, ignoreTruncateErr = False,
               truncateAsWarning = False\<rparr>,
      warnings = []\<rparr>"
  note t = ParseDuration_hour_boundary [OF lo hi, where ctx = ?C and str = "''-35 00:00:00''"
      and neg = True and body = "''35 00:00:00''" and hms = "[840, 0, 0]" and rest = "[]"
      and carry = False and frac = 0 and rest' = "[]"]
  from t have mt: "MinTime = - 3020399000000000"
    by simp
  from t have a: "ParseDuration ?C ''-838:59:59'' 3
      = (\<lparr>Duration = MinTime, Fsp = 3\<rparr>, False, None, ?C)"
    by blast
  from t h1 h2 h3 h5 have c: "ParseDuration ?C ''-35 00:00:00'' 3
      = (\<lparr>Duration = MinTime, Fsp = 3\<rparr>, False,
         Some (GenErr ErrTruncatedWrongValue [S ''time'', S ''-35 00:00:00'']), ?C)"
    by simp
  from lo hi h1 h2 h3 h5 a c show ?thesis
    unfolding mt by blast
qed

end
